theory Spec2Isabelle
  imports Complex_Main "HOL-Library.Multiset" "HOL-Library.Sublist"
    "HOL-Library.Char_ord" "HOL-Library.List_Lexorder"
begin

section \<open>clawdscan: session analysis, health classification and reports\<close>

text \<open>
  A shallow embedding of \<^verbatim>\<open>clawdscan.py\<close>: \<^verbatim>\<open>analyze_session\<close>,
  \<^verbatim>\<open>classify_session\<close>, \<^verbatim>\<open>scan_sessions\<close>, the issue ranking of
  \<^verbatim>\<open>cmd_scan\<close>, the size percentiles of \<^verbatim>\<open>cmd_disk\<close> and the weekly
  buckets and growth figures of \<^verbatim>\<open>cmd_history\<close>.

  Conventions. A Python \<^verbatim>\<open>str\<close> is a \<^typ>\<open>string\<close>, its characters read as the
  code points U+0000 to U+00FF. An exception is a value of \<open>py_error\<close>. The two
  standard-library parsers the program calls, \<^verbatim>\<open>json.loads\<close> and
  \<^verbatim>\<open>datetime.fromisoformat\<close>, are parameters \<open>L\<close> and \<open>F\<close> of the functions
  that call them; each returns its value (\<open>Inr\<close>) or the exception it raises
  (\<open>Inl\<close>). A \<^verbatim>\<open>datetime\<close> is a count of microseconds, tagged with whether it
  carries a UTC offset; a \<^verbatim>\<open>timedelta\<close> is a count of microseconds.
\<close>

subsection \<open>Python values\<close>

datatype py_error =
    JSONDecodeError
  | AttributeError
  | TypeError
  | ValueError
  | IndexError
  | OtherError string

text \<open>
  What \<^verbatim>\<open>json.loads\<close> returns. \<open>JObj kvs\<close> is the \<^verbatim>\<open>dict\<close> whose lookup is
  \<open>map_of kvs\<close>. A \<^verbatim>\<open>float\<close> is idealised as a real number (the non-finite floats
  are not represented).
\<close>

datatype json =
    JNull
  | JBool bool
  | JInt int
  | JFloat real
  | JStr string
  | JArr "json list"
  | JObj "(string \<times> json) list"

text \<open>Truth value testing, as \<^verbatim>\<open>if x:\<close> and \<^verbatim>\<open>x or y\<close> do it.\<close>

fun truthy :: "json \<Rightarrow> bool" where
  "truthy JNull = False"
| "truthy (JBool b) = b"
| "truthy (JInt n) = (n \<noteq> 0)"
| "truthy (JFloat x) = (x \<noteq> 0)"
| "truthy (JStr s) = (s \<noteq> [])"
| "truthy (JArr xs) = (xs \<noteq> [])"
| "truthy (JObj kvs) = (kvs \<noteq> [])"

definition py_or :: "json \<Rightarrow> json \<Rightarrow> json" where
  "py_or a b = (if truthy a then a else b)"

text \<open>\<^verbatim>\<open>d.get(k, default)\<close> on a dict; \<^verbatim>\<open>d.get(k)\<close> has the default \<^verbatim>\<open>None\<close>.\<close>

definition dict_get :: "(string \<times> json) list \<Rightarrow> string \<Rightarrow> json \<Rightarrow> json" where
  "dict_get kvs k d = (case map_of kvs k of None \<Rightarrow> d | Some v \<Rightarrow> v)"

text \<open>
  Keys of a \<^verbatim>\<open>set\<close> or a \<^verbatim>\<open>Counter\<close>: the hashable values up to Python's equality
  (\<^verbatim>\<open>True == 1 == 1.0\<close>). Lists and dicts are unhashable: using one as a key raises
  \<^verbatim>\<open>TypeError\<close>.
\<close>

datatype pykey = KNone | KNum real | KStr string

fun key_of :: "json \<Rightarrow> pykey option" where
  "key_of JNull = Some KNone"
| "key_of (JBool b) = Some (KNum (if b then 1 else 0))"
| "key_of (JInt n) = Some (KNum (of_int n))"
| "key_of (JFloat x) = Some (KNum x)"
| "key_of (JStr s) = Some (KStr s)"
| "key_of (JArr xs) = None"
| "key_of (JObj kvs) = None"

text \<open>
  A \<^verbatim>\<open>datetime\<close>: naive (no offset; microseconds of wall-clock time) or aware
  (microseconds since the epoch, UTC). Comparing or subtracting a naive and an aware
  one raises \<^verbatim>\<open>TypeError\<close>.
\<close>

datatype datetime = Naive int | Aware int

fun dt_sub :: "datetime \<Rightarrow> datetime \<Rightarrow> py_error + int" where
  "dt_sub (Aware a) (Aware b) = Inr (a - b)"
| "dt_sub (Naive a) (Naive b) = Inr (a - b)"
| "dt_sub (Aware a) (Naive b) = Inl TypeError"
| "dt_sub (Naive a) (Aware b) = Inl TypeError"

fun dt_less :: "datetime \<Rightarrow> datetime \<Rightarrow> py_error + bool" where
  "dt_less (Aware a) (Aware b) = Inr (a < b)"
| "dt_less (Naive a) (Naive b) = Inr (a < b)"
| "dt_less (Aware a) (Naive b) = Inl TypeError"
| "dt_less (Naive a) (Aware b) = Inl TypeError"

definition timedelta_days :: "int \<Rightarrow> int" where
  "timedelta_days d = d * 86400000000"

definition timedelta_hours :: "int \<Rightarrow> int" where
  "timedelta_hours h = h * 3600000000"

text \<open>\<^verbatim>\<open>str.isspace\<close> on the code points below 256, and \<^verbatim>\<open>str.strip()\<close>.\<close>

definition py_isspace :: "char \<Rightarrow> bool" where
  "py_isspace c = (of_char c \<in> {9, 10, 11, 12, 13, 28, 29, 30, 31, 32, 133, 160 :: nat})"

definition strip :: "string \<Rightarrow> string" where
  "strip s = rev (dropWhile py_isspace (rev (dropWhile py_isspace s)))"

text \<open>\<^verbatim>\<open>s.replace(old, new)\<close> for a non-empty \<open>old\<close>, the only use the program makes of it.\<close>

function str_replace :: "string \<Rightarrow> string \<Rightarrow> string \<Rightarrow> string" where
  "str_replace old new [] = []"
| "str_replace old new (c # cs) =
     (if old \<noteq> [] \<and> prefix old (c # cs)
      then new @ str_replace old new (drop (length old) (c # cs))
      else c # str_replace old new cs)"
  by pat_completeness auto
termination
  by (relation "measure (\<lambda>(old, new, s). length s)") auto

subsection \<open>Thresholds\<close>

definition BLOAT_SIZE_BYTES :: nat where "BLOAT_SIZE_BYTES = 1 * 1024 * 1024"
definition BLOAT_MSG_COUNT :: nat where "BLOAT_MSG_COUNT = 300"
definition STALE_DAYS :: int where "STALE_DAYS = 7"
definition ZOMBIE_HOURS :: int where "ZOMBIE_HOURS = 48"

subsection \<open>Session statistics\<close>

text \<open>
  The dict \<^verbatim>\<open>stats\<close> of \<^verbatim>\<open>analyze_session\<close>. \<^verbatim>\<open>None\<close> is \<open>None\<close> for the
  datetime fields and \<open>JNull\<close> for the fields that hold a JSON value. The key
  \<^verbatim>\<open>error_detail\<close> is absent until an exception is recorded; it holds the exception
  rather than its message.
\<close>

record stats =
  path :: string
  filename :: string
  session_id :: json
  size_bytes :: nat
  mtime :: "datetime option"
  messages :: nat
  user_messages :: nat
  assistant_messages :: nat
  tool_calls :: nat
  compactions :: nat
  model_changes :: nat
  models_used :: "pykey set"
  tools_used :: "pykey multiset"
  first_timestamp :: "datetime option"
  last_timestamp :: "datetime option"
  created :: "datetime option"
  label :: json
  cwd :: json
  errors :: nat
  custom_types :: "pykey multiset"
  error_detail :: "py_error option"

text \<open>
  A session file as the program sees it: the fields of the \<^verbatim>\<open>Path\<close> object, the
  result of \<^verbatim>\<open>stat()\<close>, the lines that iterating over the open file yields, and the
  exception, if any, that \<^verbatim>\<open>open\<close> or the iteration raises after those lines.
\<close>

record session_file =
  f_path :: string
  f_name :: string
  f_stem :: string
  st_size :: nat
  st_mtime :: int
  f_lines :: "string list"
  f_read_error :: "py_error option"

definition initial_stats :: "session_file \<Rightarrow> stats" where
  "initial_stats f =
     \<lparr> path = f_path f,
       filename = f_name f,
       session_id = JStr (str_replace ''.jsonl'' [] (f_stem f)),
       size_bytes = st_size f,
       mtime = Some (Aware (st_mtime f)),
       messages = 0,
       user_messages = 0,
       assistant_messages = 0,
       tool_calls = 0,
       compactions = 0,
       model_changes = 0,
       models_used = {},
       tools_used = {#},
       first_timestamp = None,
       last_timestamp = None,
       created = None,
       label = JNull,
       cwd = JNull,
       errors = 0,
       custom_types = {#},
       error_detail = None \<rparr>"

subsection \<open>Decoding one line\<close>

text \<open>
  Lines 106 to 122 of \<^verbatim>\<open>analyze_session\<close>: strip the line; skip it when empty;
  \<^verbatim>\<open>json.loads\<close> it, a \<^verbatim>\<open>JSONDecodeError\<close> being counted by the caller; read
  \<^verbatim>\<open>type\<close> and \<^verbatim>\<open>timestamp\<close> with \<^verbatim>\<open>entry.get\<close>, which raises
  \<^verbatim>\<open>AttributeError\<close> when the decoded value is not a dict; parse the timestamp,
  \<^verbatim>\<open>ValueError\<close> and \<^verbatim>\<open>AttributeError\<close> leaving it \<^verbatim>\<open>None\<close>.
  An exception that no handler of the loop body catches is \<open>Raised\<close>.
\<close>

datatype decoded =
    Skipped
  | Failure
  | Event "(string \<times> json) list" json "datetime option"
  | Raised py_error

definition parse_timestamp ::
  "(string \<Rightarrow> py_error + datetime) \<Rightarrow> json \<Rightarrow> py_error + datetime option" where
  "parse_timestamp F ts_str =
     (if truthy ts_str then
        (case ts_str of
           JStr s \<Rightarrow>
             (case F (str_replace ''Z'' ''+00:00'' s) of
                Inr ts \<Rightarrow> Inr (Some ts)
              | Inl e \<Rightarrow> if e = ValueError \<or> e = AttributeError then Inr None else Inl e)
         | _ \<Rightarrow> Inr None)
      else Inr None)"

definition decode_line ::
  "(string \<Rightarrow> py_error + json) \<Rightarrow> (string \<Rightarrow> py_error + datetime) \<Rightarrow> string \<Rightarrow> decoded" where
  "decode_line L F line0 =
     (let line = strip line0 in
      if line = [] then Skipped
      else
        (case L line of
           Inl e \<Rightarrow> if e = JSONDecodeError then Failure else Raised e
         | Inr entry \<Rightarrow>
             (case entry of
                JObj kvs \<Rightarrow>
                  (let entry_type = dict_get kvs ''type'' (JStr ''unknown'');
                       ts_str = dict_get kvs ''timestamp'' JNull
                   in case parse_timestamp F ts_str of
                        Inl e \<Rightarrow> Raised e
                      | Inr ts \<Rightarrow> Event kvs entry_type ts)
              | _ \<Rightarrow> Raised AttributeError)))"

subsection \<open>Accumulating the events of a file\<close>

text \<open>
  Every step returns the statistics as mutated so far together with the exception
  raised, if any: what was written before a raise stays written.
\<close>

definition update_timestamps :: "stats \<Rightarrow> datetime \<Rightarrow> stats \<times> py_error option" where
  "update_timestamps st ts =
     (case (case first_timestamp st of None \<Rightarrow> Inr True | Some t \<Rightarrow> dt_less ts t) of
        Inl e \<Rightarrow> (st, Some e)
      | Inr b1 \<Rightarrow>
          (let st1 = (if b1 then st\<lparr>first_timestamp := Some ts\<rparr> else st)
           in case (case last_timestamp st1 of None \<Rightarrow> Inr True | Some t \<Rightarrow> dt_less t ts) of
                Inl e \<Rightarrow> (st1, Some e)
              | Inr b2 \<Rightarrow> ((if b2 then st1\<lparr>last_timestamp := Some ts\<rparr> else st1), None)))"

text \<open>The loop over the content blocks of an assistant message.\<close>

fun count_tool_blocks :: "stats \<Rightarrow> json list \<Rightarrow> stats \<times> py_error option" where
  "count_tool_blocks st [] = (st, None)"
| "count_tool_blocks st (JObj kvs # bs) =
     (if dict_get kvs ''type'' JNull = JStr ''tool_use'' then
        (let st1 = st\<lparr>tool_calls := tool_calls st + 1\<rparr>
         in case key_of (dict_get kvs ''name'' (JStr ''unknown'')) of
              None \<Rightarrow> (st1, Some TypeError)
            | Some tool_name \<Rightarrow>
                count_tool_blocks (st1\<lparr>tools_used := add_mset tool_name (tools_used st1)\<rparr>) bs)
      else count_tool_blocks st bs)"
| "count_tool_blocks st (b # bs) = count_tool_blocks st bs"

definition add_model :: "stats \<Rightarrow> json \<Rightarrow> stats \<times> py_error option" where
  "add_model st model_id =
     (if truthy model_id then
        (case key_of model_id of
           None \<Rightarrow> (st, Some TypeError)
         | Some k \<Rightarrow> (st\<lparr>models_used := insert k (models_used st)\<rparr>, None))
      else (st, None))"

definition on_session :: "stats \<Rightarrow> (string \<times> json) list \<Rightarrow> datetime option \<Rightarrow> stats \<times> py_error option" where
  "on_session st entry ts =
     (st\<lparr>created := ts,
         cwd := dict_get entry ''cwd'' JNull,
         label := py_or (dict_get entry ''label'' JNull) (dict_get entry ''name'' JNull),
         session_id := dict_get entry ''id'' (session_id st)\<rparr>, None)"

definition on_message :: "stats \<Rightarrow> (string \<times> json) list \<Rightarrow> stats \<times> py_error option" where
  "on_message st entry =
     (let st1 = st\<lparr>messages := messages st + 1\<rparr>
      in case dict_get entry ''message'' (JObj []) of
           JObj msg \<Rightarrow>
             (let role = dict_get msg ''role'' (JStr [])
              in if role = JStr ''user'' then (st1\<lparr>user_messages := user_messages st1 + 1\<rparr>, None)
                 else if role = JStr ''assistant'' then
                   (let st2 = st1\<lparr>assistant_messages := assistant_messages st1 + 1\<rparr>
                    in case dict_get msg ''content'' (JArr []) of
                         JArr content \<Rightarrow> count_tool_blocks st2 content
                       | _ \<Rightarrow> (st2, None))
                 else if role = JStr ''toolResult'' then
                   (let st2 = st1\<lparr>tool_calls := tool_calls st1 + 1\<rparr>
                    in case key_of (dict_get msg ''toolName'' (JStr ''unknown'')) of
                         None \<Rightarrow> (st2, Some TypeError)
                       | Some tool_name \<Rightarrow>
                           (st2\<lparr>tools_used := add_mset tool_name (tools_used st2)\<rparr>, None))
                 else (st1, None))
         | _ \<Rightarrow> (st1, Some AttributeError))"

definition on_model_change :: "stats \<Rightarrow> (string \<times> json) list \<Rightarrow> stats \<times> py_error option" where
  "on_model_change st entry =
     add_model (st\<lparr>model_changes := model_changes st + 1\<rparr>)
       (py_or (dict_get entry ''modelId'' JNull) (dict_get entry ''model'' JNull))"

definition on_custom :: "stats \<Rightarrow> (string \<times> json) list \<Rightarrow> stats \<times> py_error option" where
  "on_custom st entry =
     (let custom_type = dict_get entry ''customType'' (JStr ''unknown'')
      in case key_of custom_type of
           None \<Rightarrow> (st, Some TypeError)
         | Some k \<Rightarrow>
             (let st1 = st\<lparr>custom_types := add_mset k (custom_types st)\<rparr>
              in if custom_type = JStr ''model-snapshot'' then
                   (case dict_get entry ''data'' (JObj []) of
                      JObj data \<Rightarrow> add_model st1 (dict_get data ''modelId'' JNull)
                    | _ \<Rightarrow> (st1, Some AttributeError))
                 else (st1, None)))"

text \<open>Lines 124 to 182: the timestamps, then the dispatch on the entry type.\<close>

definition apply_event ::
  "stats \<Rightarrow> (string \<times> json) list \<Rightarrow> json \<Rightarrow> datetime option \<Rightarrow> stats \<times> py_error option" where
  "apply_event st entry entry_type ts =
     (case (case ts of None \<Rightarrow> (st, None) | Some t \<Rightarrow> update_timestamps st t) of
        (st1, Some e) \<Rightarrow> (st1, Some e)
      | (st1, None) \<Rightarrow>
          if entry_type = JStr ''session'' then on_session st1 entry ts
          else if entry_type = JStr ''message'' then on_message st1 entry
          else if entry_type = JStr ''compaction'' then
            (st1\<lparr>compactions := compactions st1 + 1\<rparr>, None)
          else if entry_type = JStr ''model_change'' then on_model_change st1 entry
          else if entry_type = JStr ''custom'' then on_custom st1 entry
          else (st1, None))"

text \<open>The body of the \<^verbatim>\<open>for\<close> loop, for one line of the file.\<close>

definition process_line ::
  "(string \<Rightarrow> py_error + json) \<Rightarrow> (string \<Rightarrow> py_error + datetime) \<Rightarrow>
   stats \<Rightarrow> string \<Rightarrow> stats \<times> py_error option" where
  "process_line L F st line =
     (case decode_line L F line of
        Skipped \<Rightarrow> (st, None)
      | Failure \<Rightarrow> (st\<lparr>errors := errors st + 1\<rparr>, None)
      | Raised e \<Rightarrow> (st, Some e)
      | Event entry entry_type ts \<Rightarrow> apply_event st entry entry_type ts)"

text \<open>The loop: an exception leaves it at once, with the statistics as they are.\<close>

fun process_lines ::
  "(string \<Rightarrow> py_error + json) \<Rightarrow> (string \<Rightarrow> py_error + datetime) \<Rightarrow>
   stats \<Rightarrow> string list \<Rightarrow> stats \<times> py_error option" where
  "process_lines L F st [] = (st, None)"
| "process_lines L F st (l # ls) =
     (case process_line L F st l of
        (st1, Some e) \<Rightarrow> (st1, Some e)
      | (st1, None) \<Rightarrow> process_lines L F st1 ls)"

text \<open>
  \<^verbatim>\<open>analyze_session\<close>: the \<^verbatim>\<open>try\<close> around the loop counts any exception, from the
  loop body or from reading the file, as one error and records it. The final
  \<^verbatim>\<open>list(stats["models_used"])\<close> lists the set in an order Python does not specify; the
  embedding keeps the set.
\<close>

definition analyze_session ::
  "(string \<Rightarrow> py_error + json) \<Rightarrow> (string \<Rightarrow> py_error + datetime) \<Rightarrow> session_file \<Rightarrow> stats" where
  "analyze_session L F f =
     (case process_lines L F (initial_stats f) (f_lines f) of
        (st, Some e) \<Rightarrow> st\<lparr>errors := errors st + 1, error_detail := Some e\<rparr>
      | (st, None) \<Rightarrow>
          (case f_read_error f of
             Some e \<Rightarrow> st\<lparr>errors := errors st + 1, error_detail := Some e\<rparr>
           | None \<Rightarrow> st))"

subsection \<open>Health labels\<close>

text \<open>
  The label strings of \<^verbatim>\<open>classify_session\<close>; each starts with a marker character,
  which the reports test with \<^verbatim>\<open>startswith\<close> and \<^verbatim>\<open>in\<close>.
\<close>

datatype health_label =
    MegaBloat | Bloated | MsgOverflow | MsgHeavy | Ancient | Stale
  | Zombie | OverCompacted | Compacted | ParseErrors | Healthy

datatype marker = Red | Yellow | Ghost | Package | Warning | Check

fun label_marker :: "health_label \<Rightarrow> marker" where
  "label_marker MegaBloat = Red"
| "label_marker Bloated = Yellow"
| "label_marker MsgOverflow = Red"
| "label_marker MsgHeavy = Yellow"
| "label_marker Ancient = Red"
| "label_marker Stale = Yellow"
| "label_marker Zombie = Ghost"
| "label_marker OverCompacted = Package"
| "label_marker Compacted = Package"
| "label_marker ParseErrors = Warning"
| "label_marker Healthy = Check"

fun label_name :: "health_label \<Rightarrow> string" where
  "label_name MegaBloat = ''mega-bloat''"
| "label_name Bloated = ''bloated''"
| "label_name MsgOverflow = ''msg-overflow''"
| "label_name MsgHeavy = ''msg-heavy''"
| "label_name Ancient = ''ancient''"
| "label_name Stale = ''stale''"
| "label_name Zombie = ''zombie''"
| "label_name OverCompacted = ''over-compacted''"
| "label_name Compacted = ''compacted''"
| "label_name ParseErrors = ''parse-errors''"
| "label_name Healthy = ''healthy''"

subsection \<open>The classifier\<close>

definition size_rule :: "stats \<Rightarrow> health_label list" where
  "size_rule s =
     (if size_bytes s > BLOAT_SIZE_BYTES * 5 then [MegaBloat]
      else if size_bytes s > BLOAT_SIZE_BYTES then [Bloated]
      else [])"

definition message_rule :: "stats \<Rightarrow> health_label list" where
  "message_rule s =
     (if messages s > BLOAT_MSG_COUNT * 3 then [MsgOverflow]
      else if messages s > BLOAT_MSG_COUNT then [MsgHeavy]
      else [])"

text \<open>\<^verbatim>\<open>a or b\<close> on two datetimes-or-None: a datetime is always true.\<close>

definition dt_or :: "datetime option \<Rightarrow> datetime option \<Rightarrow> datetime option" where
  "dt_or a b = (case a of Some t \<Rightarrow> Some t | None \<Rightarrow> b)"

definition last_activity :: "stats \<Rightarrow> datetime option" where
  "last_activity s = dt_or (last_timestamp s) (mtime s)"

definition staleness_rule :: "stats \<Rightarrow> datetime \<Rightarrow> py_error + health_label list" where
  "staleness_rule s now =
     (case last_activity s of
        None \<Rightarrow> Inr []
      | Some la \<Rightarrow>
          (case dt_sub now la of
             Inl e \<Rightarrow> Inl e
           | Inr age \<Rightarrow>
               if age > timedelta_days (STALE_DAYS * 4) then Inr [Ancient]
               else if age > timedelta_days STALE_DAYS then Inr [Stale]
               else Inr []))"

definition zombie_rule :: "stats \<Rightarrow> datetime \<Rightarrow> py_error + health_label list" where
  "zombie_rule s now =
     (if messages s \<le> 2 then
        (case dt_or (created s) (first_timestamp s) of
           None \<Rightarrow> Inr []
         | Some c \<Rightarrow>
             (case dt_sub now c of
                Inl e \<Rightarrow> Inl e
              | Inr d \<Rightarrow> if d > timedelta_hours ZOMBIE_HOURS then Inr [Zombie] else Inr []))
      else Inr [])"

definition compaction_rule :: "stats \<Rightarrow> health_label list" where
  "compaction_rule s =
     (if compactions s > 10 then [OverCompacted]
      else if compactions s > 3 then [Compacted]
      else [])"

definition error_rule :: "stats \<Rightarrow> health_label list" where
  "error_rule s = (if errors s > 5 then [ParseErrors] else [])"

text \<open>
  \<^verbatim>\<open>classify_session\<close>: the rules in the order of the source, each appending to
  \<^verbatim>\<open>labels\<close>; a \<^verbatim>\<open>TypeError\<close> from a datetime subtraction is not caught.
\<close>

definition classify_session :: "stats \<Rightarrow> datetime \<Rightarrow> py_error + health_label list" where
  "classify_session s now =
     (let labels1 = size_rule s @ message_rule s
      in case staleness_rule s now of
           Inl e \<Rightarrow> Inl e
         | Inr stale \<Rightarrow>
             (case zombie_rule s now of
                Inl e \<Rightarrow> Inl e
              | Inr zombie \<Rightarrow>
                  (let labels = labels1 @ stale @ zombie @ compaction_rule s @ error_rule s
                   in Inr (if labels = [] then [Healthy] else labels))))"


text \<open>
  Whether two datetimes are both naive or both aware, and whether every datetime of a
  statistics record is of the kind of \<open>now\<close>: the case in which no subtraction of
  \<^verbatim>\<open>classify_session\<close> raises.
\<close>

fun same_kind :: "datetime \<Rightarrow> datetime \<Rightarrow> bool" where
  "same_kind (Aware a) (Aware b) = True"
| "same_kind (Naive a) (Naive b) = True"
| "same_kind (Aware a) (Naive b) = False"
| "same_kind (Naive a) (Aware b) = False"

definition opt_same_kind :: "datetime \<Rightarrow> datetime option \<Rightarrow> bool" where
  "opt_same_kind now x = (case x of None \<Rightarrow> True | Some t \<Rightarrow> same_kind now t)"

definition tz_consistent :: "stats \<Rightarrow> datetime \<Rightarrow> bool" where
  "tz_consistent s now =
     (opt_same_kind now (last_timestamp s) \<and> opt_same_kind now (mtime s) \<and>
      opt_same_kind now (created s) \<and> opt_same_kind now (first_timestamp s))"

subsection \<open>Finding the session files of an agent\<close>

text \<open>\<^verbatim>\<open>sub in s\<close> on strings.\<close>

fun str_contains :: "string \<Rightarrow> string \<Rightarrow> bool" where
  "str_contains sub [] = (sub = [])"
| "str_contains sub (c # cs) = (prefix sub (c # cs) \<or> str_contains sub cs)"

text \<open>
  \<^verbatim>\<open>sorted(xs, key=k, reverse=True)\<close> and \<^verbatim>\<open>xs.sort(key=k, reverse=True)\<close> for a key
  that is a natural number: descending keys, and elements with equal keys in the order
  they had in \<open>xs\<close> (Python's sort is stable, also when reversed).
\<close>

definition sorted_reverse :: "('a \<Rightarrow> nat) \<Rightarrow> 'a list \<Rightarrow> 'a list" where
  "sorted_reverse k xs = sort_key (\<lambda>x. - int (k x)) xs"

text \<open>
  \<^verbatim>\<open>scan_sessions\<close>. Its input is what \<^verbatim>\<open>sessions_dir.iterdir()\<close> yields, in the
  order the operating system lists the directory.
\<close>

definition scan_sessions :: "session_file list \<Rightarrow> bool \<Rightarrow> session_file list" where
  "scan_sessions listing include_deleted =
     sorted_reverse st_size
       (filter (\<lambda>f. suffix ''.jsonl'' (f_name f) \<and>
                    \<not> (str_contains ''.deleted.'' (f_name f) \<and> \<not> include_deleted))
          listing)"

subsection \<open>The issues of an agent, as \<^verbatim>\<open>cmd_scan\<close> ranks them\<close>

text \<open>The statistics dict once \<^verbatim>\<open>cmd_scan\<close> has added the keys \<^verbatim>\<open>labels\<close> and \<^verbatim>\<open>agent\<close>.\<close>

record session_report =
  r_stats :: stats
  r_labels :: "health_label list"
  r_agent :: string

text \<open>
  The loop of \<^verbatim>\<open>cmd_scan\<close> over the sessions of one agent: a session goes to
  \<^verbatim>\<open>agent_issues\<close> unless all its labels start with the check mark. An exception of
  \<^verbatim>\<open>classify_session\<close> ends the command.
\<close>

fun collect_issues ::
  "(string \<Rightarrow> py_error + json) \<Rightarrow> (string \<Rightarrow> py_error + datetime) \<Rightarrow> datetime \<Rightarrow> string \<Rightarrow>
   session_file list \<Rightarrow> py_error + session_report list" where
  "collect_issues L F now agent [] = Inr []"
| "collect_issues L F now agent (f # fs) =
     (let st = analyze_session L F f
      in case classify_session st now of
           Inl e \<Rightarrow> Inl e
         | Inr labels \<Rightarrow>
             (case collect_issues L F now agent fs of
                Inl e \<Rightarrow> Inl e
              | Inr rest \<Rightarrow>
                  if \<not> list_all (\<lambda>l. label_marker l = Check) labels
                  then Inr (\<lparr>r_stats = st, r_labels = labels, r_agent = agent\<rparr> # rest)
                  else Inr rest))"

definition agent_issues ::
  "(string \<Rightarrow> py_error + json) \<Rightarrow> (string \<Rightarrow> py_error + datetime) \<Rightarrow> datetime \<Rightarrow> string \<Rightarrow>
   session_file list \<Rightarrow> bool \<Rightarrow> py_error + session_report list" where
  "agent_issues L F now agent listing include_deleted =
     (case collect_issues L F now agent (scan_sessions listing include_deleted) of
        Inl e \<Rightarrow> Inl e
      | Inr issues \<Rightarrow> Inr (sorted_reverse (\<lambda>r. size_bytes (r_stats r)) issues))"

subsection \<open>The size distribution of \<^verbatim>\<open>cmd_disk\<close>\<close>

text \<open>\<^verbatim>\<open>xs[i]\<close> for an index that is not negative.\<close>

definition py_index :: "'a list \<Rightarrow> nat \<Rightarrow> py_error + 'a" where
  "py_index xs i = (if i < length xs then Inr (xs ! i) else Inl IndexError)"

text \<open>
  The percentiles of the sizes of the active sessions of one agent; \<open>Inr None\<close> when
  there is no active session and nothing is printed. \<^verbatim>\<open>int(len(sizes) * 0.9)\<close> and
  \<^verbatim>\<open>int(len(sizes) * 0.99)\<close> are computed exactly, as \<open>n * 9 div 10\<close> and
  \<open>n * 99 div 100\<close>.
\<close>

definition size_percentiles :: "nat list \<Rightarrow> py_error + (nat \<times> nat \<times> nat) option" where
  "size_percentiles active_sizes =
     (if active_sizes \<noteq> [] then
        (let sizes = sort active_sizes;
             n = length sizes
         in case py_index sizes (n div 2) of
              Inl e \<Rightarrow> Inl e
            | Inr p50 \<Rightarrow>
                (case py_index sizes (n * 9 div 10) of
                   Inl e \<Rightarrow> Inl e
                 | Inr p90 \<Rightarrow>
                     (case py_index sizes (n * 99 div 100) of
                        Inl e \<Rightarrow> Inl e
                      | Inr p99 \<Rightarrow> Inr (Some (p50, p90, p99)))))
      else Inr None)"

definition active_sessions :: "session_file list \<Rightarrow> session_file list" where
  "active_sessions listing =
     (let sessions = scan_sessions listing True
      in filter (\<lambda>f. \<not> str_contains ''.deleted.'' (f_name f)) sessions)"

definition disk_percentiles :: "session_file list \<Rightarrow> py_error + (nat \<times> nat \<times> nat) option" where
  "disk_percentiles listing = size_percentiles (map st_size (active_sessions listing))"

text \<open>
  The nearest-rank percentile as the specification names it: the value at the
  1-based rank \<open>\<lceil>p / 100 \<times> n\<rceil>\<close> of the sorted list.
\<close>

definition nearest_rank :: "nat \<Rightarrow> nat list \<Rightarrow> nat" where
  "nearest_rank p xs = sort xs ! ((p * length xs + 99) div 100 - 1)"

subsection \<open>The weekly buckets and growth figures of \<^verbatim>\<open>cmd_history\<close>\<close>

text \<open>
  An element of \<^verbatim>\<open>all_sessions\<close>: \<^verbatim>\<open>created\<close> is the modification instant of the
  file in microseconds, \<^verbatim>\<open>messages\<close> the number of its non-blank lines.
\<close>

record hist_session =
  h_file :: string
  h_created :: int
  h_size :: nat
  h_messages :: nat
  h_agent :: string

record week_bucket =
  w_sessions :: "hist_session list"
  w_total_size :: nat
  w_bloated :: nat
  w_zombies :: nat

text \<open>
  \<^verbatim>\<open>history_data\<close>: a dict in insertion order. The key \<^verbatim>\<open>f"Week {week_num + 1}"\<close> is
  the number \<open>week_num + 1\<close>. \<open>dict_set\<close> is \<^verbatim>\<open>d[k] = v\<close>: a key already present keeps
  its place, a new key goes to the end.
\<close>

fun dict_set :: "('k \<times> 'v) list \<Rightarrow> 'k \<Rightarrow> 'v \<Rightarrow> ('k \<times> 'v) list" where
  "dict_set [] k v = [(k, v)]"
| "dict_set ((k', v') # kvs) k v =
     (if k' = k then (k', v) # kvs else (k', v') # dict_set kvs k v)"

definition week_key :: "int \<Rightarrow> hist_session \<Rightarrow> int" where
  "week_key start_date session =
     (let days_from_start = (h_created session - start_date) div 86400000000;
          week_num = days_from_start div 7
      in week_num + 1)"

definition add_session ::
  "int \<Rightarrow> (int \<times> week_bucket) list \<Rightarrow> hist_session \<Rightarrow> (int \<times> week_bucket) list" where
  "add_session start_date history_data session =
     (let k = week_key start_date session;
          b = (case map_of history_data k of
                 None \<Rightarrow> \<lparr>w_sessions = [], w_total_size = 0, w_bloated = 0, w_zombies = 0\<rparr>
               | Some b \<Rightarrow> b);
          b1 = b\<lparr>w_sessions := w_sessions b @ [session],
                 w_total_size := w_total_size b + h_size session\<rparr>;
          b2 = (if h_size session > BLOAT_SIZE_BYTES \<or> h_messages session > BLOAT_MSG_COUNT
                then b1\<lparr>w_bloated := w_bloated b1 + 1\<rparr> else b1);
          b3 = (if h_messages session \<le> 2 then b2\<lparr>w_zombies := w_zombies b2 + 1\<rparr> else b2)
      in dict_set history_data k b3)"

definition group_by_week :: "int \<Rightarrow> hist_session list \<Rightarrow> (int \<times> week_bucket) list" where
  "group_by_week start_date all_sessions = foldl (add_session start_date) [] all_sessions"

text \<open>
  The loop that prints one line per week, in ascending week order: the week, its
  session count and total size, and the two growth percentages when the previous
  week had sessions. Python's floats are idealised as real numbers.
\<close>

fun week_over_week ::
  "nat \<Rightarrow> nat \<Rightarrow> (int \<times> week_bucket) list \<Rightarrow> (int \<times> nat \<times> nat \<times> (real \<times> real) option) list" where
  "week_over_week prev_sessions prev_size [] = []"
| "week_over_week prev_sessions prev_size ((k, data) # rest) =
     (let session_count = length (w_sessions data);
          total_size = w_total_size data;
          growth =
            (if prev_sessions > 0 then
               Some (((real session_count - real prev_sessions) / real prev_sessions) * 100,
                     (if prev_size > 0
                      then ((real total_size - real prev_size) / real prev_size) * 100 else 0))
             else None)
      in (k, session_count, total_size, growth) # week_over_week session_count total_size rest)"

definition weekly_lines ::
  "(int \<times> week_bucket) list \<Rightarrow> (int \<times> nat \<times> nat \<times> (real \<times> real) option) list" where
  "weekly_lines history_data = week_over_week 0 0 (sort_key fst history_data)"

text \<open>
  The overall growth rate, printed when there is more than one bucket:
  \<^verbatim>\<open>list(history_data.values())[0]\<close> and \<^verbatim>\<open>[-1]\<close> are the first and the last bucket in
  insertion order; \<^verbatim>\<open>x ** y\<close> on a non-negative float \<open>x\<close> is \<open>x powr y\<close>.
\<close>

definition growth_rate :: "(int \<times> week_bucket) list \<Rightarrow> (real \<times> real) option" where
  "growth_rate history_data =
     (if length history_data > 1 then
        (let first_week = snd (hd history_data);
             last_week = snd (last history_data);
             weeks = length history_data;
             session_growth_rate =
               (if length (w_sessions first_week) > 0
                then ((real (length (w_sessions last_week)) / real (length (w_sessions first_week)))
                        powr (1 / real weeks) - 1) * 100
                else 0);
             size_growth_rate =
               (if w_total_size first_week > 0
                then ((real (w_total_size last_week) / real (w_total_size first_week))
                        powr (1 / real weeks) - 1) * 100
                else 0)
         in Some (session_growth_rate, size_growth_rate))
      else None)"

subsection \<open>Auxiliary notions for the proofs\<close>

text \<open>Adding \<open>k\<close> to the error counter and leaving every other field as it is.\<close>

definition bump :: "nat \<Rightarrow> stats \<Rightarrow> stats" where
  "bump k st = st\<lparr>errors := errors st + k\<rparr>"

text \<open>The fields that identify the file are the same in two statistics records.\<close>

definition same_file :: "stats \<Rightarrow> stats \<Rightarrow> bool" where
  "same_file st st' =
     (mtime st' = mtime st \<and> size_bytes st' = size_bytes st \<and> path st' = path st \<and>
      filename st' = filename st)"

text \<open>
  A content block that the loop over an assistant message counts as a tool call, the
  key under which it is counted, and whether every counted block of a list has a
  hashable name.
\<close>

definition is_tool_use :: "json \<Rightarrow> bool" where
  "is_tool_use b = (case b of JObj kvs \<Rightarrow> dict_get kvs ''type'' JNull = JStr ''tool_use'' | _ \<Rightarrow> False)"

definition tool_name_key :: "json \<Rightarrow> pykey option" where
  "tool_name_key b = (case b of JObj kvs \<Rightarrow> key_of (dict_get kvs ''name'' (JStr ''unknown'')) | _ \<Rightarrow> None)"

definition hashable_tool_names :: "json list \<Rightarrow> bool" where
  "hashable_tool_names blocks = list_all (\<lambda>b. tool_name_key b \<noteq> None) (filter is_tool_use blocks)"

subsection \<open>Sample inputs\<close>

text \<open>
  An empty session file, last modified at the epoch; two empty files that differ in
  their names only.
\<close>

definition example_file :: session_file where
  "example_file =
     \<lparr> f_path = ''/agents/main/sessions/abc.jsonl'',
       f_name = ''abc.jsonl'',
       f_stem = ''abc'',
       st_size = 0,
       st_mtime = 0,
       f_lines = [],
       f_read_error = None \<rparr>"

definition file_a :: session_file where
  "file_a = example_file\<lparr>f_path := ''/agents/main/sessions/a.jsonl'', f_name := ''a.jsonl'', f_stem := ''a''\<rparr>"

definition file_b :: session_file where
  "file_b = example_file\<lparr>f_path := ''/agents/main/sessions/b.jsonl'', f_name := ''b.jsonl'', f_stem := ''b''\<rparr>"

text \<open>
  Six lines of a session file: a session start without timestamp, two user messages,
  an assistant message with one \<^verbatim>\<open>tool_use\<close> block, a line that is not JSON, and a
  line that is JSON but not an object.
\<close>

definition line_session :: string where
  \<open>line_session = ''{"type":"session","id":"abc"}''\<close>

definition line_user1 :: string where
  \<open>line_user1 = ''{"type":"message","timestamp":"2026-01-01T00:00:01Z","message":{"role":"user"}}''\<close>

definition line_user2 :: string where
  \<open>line_user2 = ''{"type":"message","timestamp":"2026-01-01T00:00:02Z","message":{"role":"user"}}''\<close>

definition line_assistant :: string where
  \<open>line_assistant = ''{"type":"message","timestamp":"2026-01-01T00:00:03Z","message":{"role":"assistant","content":[{"type":"tool_use","name":"search"}]}}''\<close>

definition line_malformed :: string where
  \<open>line_malformed = ''{"type":"message",''\<close>

definition line_number :: string where
  \<open>line_number = ''42''\<close>

text \<open>
  What \<^verbatim>\<open>json.loads\<close> and \<^verbatim>\<open>datetime.fromisoformat\<close> return on the sample lines and
  on their timestamps. The tables stand for the two parsers on these inputs only; any
  other input is answered as a parse failure.
\<close>

definition sample_loads :: "string \<Rightarrow> py_error + json" where
  "sample_loads s =
     (case map_of
        [(line_session, JObj [(''type'', JStr ''session''), (''id'', JStr ''abc'')]),
         (line_user1, JObj [(''type'', JStr ''message''),
                            (''timestamp'', JStr ''2026-01-01T00:00:01Z''),
                            (''message'', JObj [(''role'', JStr ''user'')])]),
         (line_user2, JObj [(''type'', JStr ''message''),
                            (''timestamp'', JStr ''2026-01-01T00:00:02Z''),
                            (''message'', JObj [(''role'', JStr ''user'')])]),
         (line_assistant, JObj [(''type'', JStr ''message''),
                            (''timestamp'', JStr ''2026-01-01T00:00:03Z''),
                            (''message'', JObj [(''role'', JStr ''assistant''),
                               (''content'', JArr [JObj [(''type'', JStr ''tool_use''),
                                                         (''name'', JStr ''search'')]])])]),
         (line_number, JInt 42)] s of
        Some v \<Rightarrow> Inr v
      | None \<Rightarrow> Inl JSONDecodeError)"

definition sample_fromiso :: "string \<Rightarrow> py_error + datetime" where
  "sample_fromiso s =
     (case map_of
        [(''2026-01-01T00:00:01+00:00'', Aware 1767225601000000),
         (''2026-01-01T00:00:02+00:00'', Aware 1767225602000000),
         (''2026-01-01T00:00:03+00:00'', Aware 1767225603000000)] s of
        Some t \<Rightarrow> Inr t
      | None \<Rightarrow> Inl ValueError)"

text \<open>
  The statistics of a session with two messages that was created at the epoch, and
  an instant 49 hours later.
\<close>

definition two_message_stats :: stats where
  "two_message_stats =
     (initial_stats example_file)
       \<lparr>messages := 2, user_messages := 1, assistant_messages := 1, created := Some (Aware 0)\<rparr>"

definition after_49_hours :: datetime where
  "after_49_hours = Aware (49 * 3600000000)"

text \<open>
  The session file of the five lines (342 bytes with their line ends), and a
  \<^verbatim>\<open>toolResult\<close> message entry.
\<close>

definition sample_file :: session_file where
  "sample_file =
     example_file
       \<lparr>f_lines := [line_session, line_user1, line_user2, line_assistant, line_malformed],
        st_size := 342\<rparr>"

definition tool_result_entry :: "(string \<times> json) list" where
  "tool_result_entry =
     [(''type'', JStr ''message''),
      (''message'', JObj [(''role'', JStr ''toolResult''), (''toolName'', JStr ''read'')])]"

text \<open>
  A directory listing of ten session files with the sizes 10, 20, ..., 100, in no
  particular order.
\<close>

definition sized_file :: "string \<Rightarrow> nat \<Rightarrow> session_file" where
  "sized_file stem n =
     example_file
       \<lparr>f_path := ''/agents/main/sessions/'' @ stem @ ''.jsonl'',
        f_name := stem @ ''.jsonl'',
        f_stem := stem,
        st_size := n\<rparr>"

definition ten_files :: "session_file list" where
  "ten_files =
     [sized_file ''s03'' 30, sized_file ''s10'' 100, sized_file ''s01'' 10, sized_file ''s07'' 70,
      sized_file ''s05'' 50, sized_file ''s02'' 20, sized_file ''s09'' 90, sized_file ''s06'' 60,
      sized_file ''s04'' 40, sized_file ''s08'' 80]"

section \<open>Properties\<close>

subsection \<open>The sample inputs, evaluated\<close>

lemmas sample_line_defs = line_session_def line_user1_def line_user2_def line_assistant_def
  line_malformed_def line_number_def

lemma strip_samples:
  "strip line_session = line_session" "strip line_user1 = line_user1"
  "strip line_user2 = line_user2" "strip line_assistant = line_assistant"
  "strip line_malformed = line_malformed" "strip line_number = line_number"
  by (simp_all add: strip_def sample_line_defs py_isspace_def)

lemma sample_loads_simps:
  "sample_loads line_session = Inr (JObj [(''type'', JStr ''session''), (''id'', JStr ''abc'')])"
  "sample_loads line_user1 = Inr (JObj [(''type'', JStr ''message''),
                            (''timestamp'', JStr ''2026-01-01T00:00:01Z''),
                            (''message'', JObj [(''role'', JStr ''user'')])])"
  "sample_loads line_user2 = Inr (JObj [(''type'', JStr ''message''),
                            (''timestamp'', JStr ''2026-01-01T00:00:02Z''),
                            (''message'', JObj [(''role'', JStr ''user'')])])"
  "sample_loads line_assistant = Inr (JObj [(''type'', JStr ''message''),
                            (''timestamp'', JStr ''2026-01-01T00:00:03Z''),
                            (''message'', JObj [(''role'', JStr ''assistant''),
                               (''content'', JArr [JObj [(''type'', JStr ''tool_use''),
                                                         (''name'', JStr ''search'')]])])])"
  "sample_loads line_malformed = Inl JSONDecodeError"
  "sample_loads line_number = Inr (JInt 42)"
  by (simp_all add: sample_loads_def sample_line_defs)

lemma nonempty_samples:
  "line_session \<noteq> []" "line_user1 \<noteq> []" "line_user2 \<noteq> []" "line_assistant \<noteq> []"
  "line_malformed \<noteq> []" "line_number \<noteq> []"
  by (simp_all add: sample_line_defs)

lemma process_session_line:
  "process_line sample_loads sample_fromiso st line_session =
     (st\<lparr>created := None, cwd := JNull, label := JNull, session_id := JStr ''abc''\<rparr>, None)"
  by (simp add: process_line_def decode_line_def strip_samples nonempty_samples sample_loads_simps
      dict_get_def parse_timestamp_def apply_event_def on_session_def py_or_def)

subsection \<open>The classifier returns labels when the datetimes are of one kind\<close>

lemma dt_sub_same_kind: "same_kind a b \<Longrightarrow> \<exists>d. dt_sub a b = Inr d"
  by (cases a; cases b) simp_all

lemma staleness_rule_total:
  "tz_consistent s now \<Longrightarrow> \<exists>ls. staleness_rule s now = Inr ls"
  unfolding staleness_rule_def last_activity_def dt_or_def tz_consistent_def opt_same_kind_def
  by (auto split: option.splits sum.splits dest: dt_sub_same_kind)

lemma zombie_rule_total:
  "tz_consistent s now \<Longrightarrow> \<exists>ls. zombie_rule s now = Inr ls"
  unfolding zombie_rule_def dt_or_def tz_consistent_def opt_same_kind_def
  by (auto split: option.splits sum.splits dest: dt_sub_same_kind)

lemma classify_session_total:
  assumes "tz_consistent s now"
  shows "\<exists>ls. classify_session s now = Inr ls"
proof -
  obtain stale where "staleness_rule s now = Inr stale"
    using staleness_rule_total[OF assms] by blast
  moreover obtain zombie where "zombie_rule s now = Inr zombie"
    using zombie_rule_total[OF assms] by blast
  ultimately show ?thesis by (simp add: classify_session_def)
qed

lemma classify_session_Inr:
  assumes "classify_session s now = Inr ls"
  shows "\<exists>stale zombie. staleness_rule s now = Inr stale \<and> zombie_rule s now = Inr zombie \<and>
     ls = (if size_rule s @ message_rule s @ stale @ zombie @ compaction_rule s @ error_rule s = []
           then [Healthy]
           else size_rule s @ message_rule s @ stale @ zombie @ compaction_rule s @ error_rule s)"
proof (cases "staleness_rule s now")
  case (Inl e)
  with assms show ?thesis by (simp add: classify_session_def)
next
  case stale: (Inr stale)
  show ?thesis
  proof (cases "zombie_rule s now")
    case (Inl e)
    with assms stale show ?thesis by (simp add: classify_session_def)
  next
    case (Inr zombie)
    with assms stale show ?thesis by (auto simp: classify_session_def split: if_splits)
  qed
qed

lemma size_rule_labels: "set (size_rule s) \<subseteq> {MegaBloat, Bloated}"
  by (auto simp: size_rule_def)

lemma message_rule_labels: "set (message_rule s) \<subseteq> {MsgOverflow, MsgHeavy}"
  by (auto simp: message_rule_def)

lemma compaction_rule_labels: "set (compaction_rule s) \<subseteq> {OverCompacted, Compacted}"
  by (auto simp: compaction_rule_def)

lemma error_rule_labels: "set (error_rule s) \<subseteq> {ParseErrors}"
  by (auto simp: error_rule_def)

lemma staleness_rule_labels: "staleness_rule s now = Inr ls \<Longrightarrow> set ls \<subseteq> {Ancient, Stale}"
  by (auto simp: staleness_rule_def split: option.splits sum.splits if_splits)

lemma zombie_rule_labels: "zombie_rule s now = Inr ls \<Longrightarrow> set ls \<subseteq> {Zombie}"
  by (auto simp: zombie_rule_def split: option.splits sum.splits if_splits)

lemma zombie_rule_iff:
  assumes "messages s \<le> 2" and "zombie_rule s now = Inr ls"
  shows "Zombie \<in> set ls \<longleftrightarrow>
    (\<exists>c d. (case created s of Some t \<Rightarrow> Some t | None \<Rightarrow> first_timestamp s) = Some c \<and>
           dt_sub now c = Inr d \<and> d > 48 * 3600000000)"
  using assms
  by (auto simp: zombie_rule_def dt_or_def timedelta_hours_def ZOMBIE_HOURS_def
      split: option.splits sum.splits if_splits)

subsection \<open>The zombie rule\<close>

text \<open>
  Claim C1. For a statistics record with at most 2 messages, the labels that
  \<^verbatim>\<open>classify_session\<close> returns contain the zombie label exactly when the creation
  instant (\<^verbatim>\<open>created\<close>, falling back to \<^verbatim>\<open>first_timestamp\<close>) is not \<^verbatim>\<open>None\<close> and
  \<open>now\<close> minus that instant exceeds 48 hours; when both instants are \<^verbatim>\<open>None\<close> the
  record is never labelled a zombie. Labels are returned whenever the datetimes of the
  record are of the kind of \<open>now\<close> (instants with an offset, as the timestamps of
  session statistics are).
\<close>

theorem zombie_label_exact:
  assumes "messages s \<le> 2"
  shows "(tz_consistent s now \<longrightarrow> (\<exists>ls. classify_session s now = Inr ls)) \<and>
         (\<forall>ls. classify_session s now = Inr ls \<longrightarrow>
            (Zombie \<in> set ls \<longleftrightarrow>
               (\<exists>c d. (case created s of Some t \<Rightarrow> Some t | None \<Rightarrow> first_timestamp s) = Some c \<and>
                      dt_sub now c = Inr d \<and> d > 48 * 3600000000)) \<and>
            (created s = None \<and> first_timestamp s = None \<longrightarrow> Zombie \<notin> set ls))"
proof (intro conjI allI impI)
  assume "tz_consistent s now"
  then show "\<exists>ls. classify_session s now = Inr ls" by (rule classify_session_total)
next
  fix ls assume ls: "classify_session s now = Inr ls"
  then obtain stale zombie where st: "staleness_rule s now = Inr stale"
    and zo: "zombie_rule s now = Inr zombie"
    and eq: "ls = (if size_rule s @ message_rule s @ stale @ zombie @ compaction_rule s @ error_rule s = []
           then [Healthy]
           else size_rule s @ message_rule s @ stale @ zombie @ compaction_rule s @ error_rule s)"
    using classify_session_Inr by blast
  have "Zombie \<in> set ls \<longleftrightarrow> Zombie \<in> set zombie"
    using size_rule_labels[of s] message_rule_labels[of s] compaction_rule_labels[of s]
      error_rule_labels[of s] staleness_rule_labels[OF st]
    by (auto simp: eq)
  then show iff: "Zombie \<in> set ls \<longleftrightarrow>
               (\<exists>c d. (case created s of Some t \<Rightarrow> Some t | None \<Rightarrow> first_timestamp s) = Some c \<and>
                      dt_sub now c = Inr d \<and> d > 48 * 3600000000)"
    using zombie_rule_iff[OF assms zo] by simp
  assume "created s = None \<and> first_timestamp s = None"
  then show "Zombie \<notin> set ls" using iff by simp
qed

theorem zombie_label_exact_witness:
  "messages two_message_stats \<le> 2 \<and> tz_consistent two_message_stats after_49_hours \<and>
   (\<exists>ls. classify_session two_message_stats after_49_hours = Inr ls \<and> Zombie \<in> set ls) \<and>
   (\<exists>ls. classify_session (two_message_stats\<lparr>created := None\<rparr>) after_49_hours = Inr ls \<and>
         Zombie \<notin> set ls)"
proof -
  let ?s = two_message_stats and ?s' = "two_message_stats\<lparr>created := None\<rparr>"
  have m: "messages ?s \<le> 2" and m': "messages ?s' \<le> 2"
    by (simp_all add: two_message_stats_def)
  have tz: "tz_consistent ?s after_49_hours" and tz': "tz_consistent ?s' after_49_hours"
    by (simp_all add: two_message_stats_def after_49_hours_def tz_consistent_def
        opt_same_kind_def initial_stats_def)
  have c: "(case created ?s of Some t \<Rightarrow> Some t | None \<Rightarrow> first_timestamp ?s) = Some (Aware 0)"
    and d: "dt_sub after_49_hours (Aware 0) = Inr (49 * 3600000000)"
    by (simp_all add: two_message_stats_def after_49_hours_def)
  have n: "created ?s' = None \<and> first_timestamp ?s' = None"
    by (simp add: two_message_stats_def initial_stats_def)
  note T = zombie_label_exact[OF m, of after_49_hours]
  from T tz obtain ls where ls: "classify_session ?s after_49_hours = Inr ls" by blast
  have "\<exists>c d. (case created ?s of Some t \<Rightarrow> Some t | None \<Rightarrow> first_timestamp ?s) = Some c \<and>
       dt_sub after_49_hours c = Inr d \<and> d > 48 * 3600000000"
    using c d by simp
  with T ls have "Zombie \<in> set ls" by blast
  with ls have 1: "\<exists>ls. classify_session ?s after_49_hours = Inr ls \<and> Zombie \<in> set ls"
    by blast
  note T' = zombie_label_exact[OF m', of after_49_hours]
  from T' tz' obtain ls' where ls': "classify_session ?s' after_49_hours = Inr ls'" by blast
  with T' n have "Zombie \<notin> set ls'" by blast
  with ls' have 2: "\<exists>ls. classify_session ?s' after_49_hours = Inr ls \<and> Zombie \<notin> set ls"
    by blast
  from m tz 1 2 show ?thesis by blast
qed

subsection \<open>The default label\<close>

text \<open>
  Claim C2. The label list that \<^verbatim>\<open>classify_session\<close> returns is never empty; it
  contains the healthy label if and only if no rule produced a label, and then it is
  the one-element list of the healthy label. Labels are returned whenever the
  datetimes of the record are of the kind of \<open>now\<close>.
\<close>

theorem healthy_exclusive:
  "(tz_consistent s now \<longrightarrow> (\<exists>ls. classify_session s now = Inr ls)) \<and>
   (\<forall>ls. classify_session s now = Inr ls \<longrightarrow>
      ls \<noteq> [] \<and>
      (Healthy \<in> set ls \<longleftrightarrow>
         size_rule s = [] \<and> message_rule s = [] \<and> staleness_rule s now = Inr [] \<and>
         zombie_rule s now = Inr [] \<and> compaction_rule s = [] \<and> error_rule s = []) \<and>
      (Healthy \<in> set ls \<longrightarrow> ls = [Healthy]))"
proof (intro conjI allI impI)
  assume "tz_consistent s now"
  then show "\<exists>ls. classify_session s now = Inr ls" by (rule classify_session_total)
next
  fix ls assume ls: "classify_session s now = Inr ls"
  then obtain stale zombie where st: "staleness_rule s now = Inr stale"
    and zo: "zombie_rule s now = Inr zombie"
    and eq: "ls = (if size_rule s @ message_rule s @ stale @ zombie @ compaction_rule s @ error_rule s = []
           then [Healthy]
           else size_rule s @ message_rule s @ stale @ zombie @ compaction_rule s @ error_rule s)"
    using classify_session_Inr by blast
  let ?labels = "size_rule s @ message_rule s @ stale @ zombie @ compaction_rule s @ error_rule s"
  have notin: "Healthy \<notin> set ?labels"
    using size_rule_labels[of s] message_rule_labels[of s] compaction_rule_labels[of s]
      error_rule_labels[of s] staleness_rule_labels[OF st] zombie_rule_labels[OF zo]
    by auto
  show "ls \<noteq> []" by (simp add: eq Let_def)
  have iff: "Healthy \<in> set ls \<longleftrightarrow> ?labels = []"
    using notin by (simp add: eq Let_def)
  show "Healthy \<in> set ls \<longleftrightarrow>
         size_rule s = [] \<and> message_rule s = [] \<and> staleness_rule s now = Inr [] \<and>
         zombie_rule s now = Inr [] \<and> compaction_rule s = [] \<and> error_rule s = []"
    using iff st zo by auto
  assume "Healthy \<in> set ls"
  then have "?labels = []" using iff by simp
  then show "ls = [Healthy]" by (simp add: eq Let_def)
qed

theorem healthy_exclusive_witness:
  "tz_consistent (initial_stats example_file) (Aware 0) \<and>
   classify_session (initial_stats example_file) (Aware 0) = Inr [Healthy] \<and>
   size_rule (initial_stats example_file) = [] \<and>
   staleness_rule (initial_stats example_file) (Aware 0) = Inr []"
proof -
  let ?s = "initial_stats example_file"
  have tz: "tz_consistent ?s (Aware 0)"
    by (simp add: tz_consistent_def opt_same_kind_def initial_stats_def)
  have rules: "size_rule ?s = []" "message_rule ?s = []" "staleness_rule ?s (Aware 0) = Inr []"
    "zombie_rule ?s (Aware 0) = Inr []" "compaction_rule ?s = []" "error_rule ?s = []"
    by (simp_all add: size_rule_def message_rule_def staleness_rule_def zombie_rule_def
        compaction_rule_def error_rule_def last_activity_def dt_or_def initial_stats_def
        example_file_def timedelta_days_def STALE_DAYS_def BLOAT_SIZE_BYTES_def)
  note T = healthy_exclusive[of ?s "Aware 0"]
  from T tz obtain ls where ls: "classify_session ?s (Aware 0) = Inr ls" by blast
  from T ls rules have "Healthy \<in> set ls" by blast
  with T ls have "ls = [Healthy]" by blast
  with ls tz rules show ?thesis by simp
qed

subsection \<open>A line that is not JSON changes the error counter only\<close>

lemma bump_sel:
  "messages (bump k st) = messages st"
  "user_messages (bump k st) = user_messages st"
  "assistant_messages (bump k st) = assistant_messages st"
  "tool_calls (bump k st) = tool_calls st"
  "compactions (bump k st) = compactions st"
  "model_changes (bump k st) = model_changes st"
  "models_used (bump k st) = models_used st"
  "tools_used (bump k st) = tools_used st"
  "custom_types (bump k st) = custom_types st"
  "first_timestamp (bump k st) = first_timestamp st"
  "last_timestamp (bump k st) = last_timestamp st"
  "session_id (bump k st) = session_id st"
  "errors (bump k st) = errors st + k"
  by (simp_all add: bump_def)

lemma bump_upd:
  "(bump k st)\<lparr>messages := a\<rparr> = bump k (st\<lparr>messages := a\<rparr>)"
  "(bump k st)\<lparr>user_messages := a\<rparr> = bump k (st\<lparr>user_messages := a\<rparr>)"
  "(bump k st)\<lparr>assistant_messages := a\<rparr> = bump k (st\<lparr>assistant_messages := a\<rparr>)"
  "(bump k st)\<lparr>tool_calls := a\<rparr> = bump k (st\<lparr>tool_calls := a\<rparr>)"
  "(bump k st)\<lparr>compactions := a\<rparr> = bump k (st\<lparr>compactions := a\<rparr>)"
  "(bump k st)\<lparr>model_changes := a\<rparr> = bump k (st\<lparr>model_changes := a\<rparr>)"
  "(bump k st)\<lparr>models_used := b\<rparr> = bump k (st\<lparr>models_used := b\<rparr>)"
  "(bump k st)\<lparr>tools_used := c\<rparr> = bump k (st\<lparr>tools_used := c\<rparr>)"
  "(bump k st)\<lparr>custom_types := c\<rparr> = bump k (st\<lparr>custom_types := c\<rparr>)"
  "(bump k st)\<lparr>first_timestamp := d\<rparr> = bump k (st\<lparr>first_timestamp := d\<rparr>)"
  "(bump k st)\<lparr>last_timestamp := d\<rparr> = bump k (st\<lparr>last_timestamp := d\<rparr>)"
  "(bump k st)\<lparr>created := d\<rparr> = bump k (st\<lparr>created := d\<rparr>)"
  "(bump k st)\<lparr>cwd := j\<rparr> = bump k (st\<lparr>cwd := j\<rparr>)"
  "(bump k st)\<lparr>label := j\<rparr> = bump k (st\<lparr>label := j\<rparr>)"
  "(bump k st)\<lparr>session_id := j\<rparr> = bump k (st\<lparr>session_id := j\<rparr>)"
  "(bump k st)\<lparr>error_detail := x\<rparr> = bump k (st\<lparr>error_detail := x\<rparr>)"
  by (simp_all add: bump_def)

lemma bump_errors_upd:
  "(bump k st)\<lparr>errors := Suc (errors (bump k st))\<rparr> = bump k (st\<lparr>errors := Suc (errors st)\<rparr>)"
  by (simp add: bump_def)

lemma update_timestamps_bump:
  "update_timestamps (bump k st) ts = (bump k (fst (update_timestamps st ts)), snd (update_timestamps st ts))"
  by (simp add: update_timestamps_def bump_sel bump_upd Let_def split: option.splits sum.splits)

lemma count_tool_blocks_bump:
  "count_tool_blocks (bump k st) bs = (bump k (fst (count_tool_blocks st bs)), snd (count_tool_blocks st bs))"
proof (induction bs arbitrary: st)
  case Nil
  then show ?case by simp
next
  case (Cons b bs)
  show ?case
    by (cases b) (simp_all add: Cons.IH bump_sel bump_upd Let_def split: option.splits)
qed

lemma add_model_bump:
  "add_model (bump k st) m = (bump k (fst (add_model st m)), snd (add_model st m))"
  by (simp add: add_model_def bump_sel bump_upd split: option.splits)

lemma on_session_bump:
  "on_session (bump k st) e ts = (bump k (fst (on_session st e ts)), snd (on_session st e ts))"
  by (simp add: on_session_def bump_sel bump_upd)

lemma on_message_bump:
  "on_message (bump k st) e = (bump k (fst (on_message st e)), snd (on_message st e))"
  by (simp add: on_message_def count_tool_blocks_bump bump_sel bump_upd Let_def split: json.splits option.splits)

lemma on_model_change_bump:
  "on_model_change (bump k st) e = (bump k (fst (on_model_change st e)), snd (on_model_change st e))"
  by (simp add: on_model_change_def add_model_bump bump_sel bump_upd)

lemma on_custom_bump:
  "on_custom (bump k st) e = (bump k (fst (on_custom st e)), snd (on_custom st e))"
  by (simp add: on_custom_def add_model_bump bump_sel bump_upd Let_def split: json.splits option.splits)

lemma apply_event_bump:
  "apply_event (bump k st) e ty ts = (bump k (fst (apply_event st e ty ts)), snd (apply_event st e ty ts))"
  by (simp add: apply_event_def update_timestamps_bump on_session_bump on_message_bump
      on_model_change_bump on_custom_bump bump_sel bump_upd split: option.splits prod.splits)

lemma process_line_bump:
  "process_line L F (bump k st) l = (bump k (fst (process_line L F st l)), snd (process_line L F st l))"
  by (simp add: process_line_def apply_event_bump bump_errors_upd split: decoded.splits)

lemma process_lines_bump:
  "process_lines L F (bump k st) ls = (bump k (fst (process_lines L F st ls)), snd (process_lines L F st ls))"
proof (induction ls arbitrary: st)
  case Nil
  then show ?case by simp
next
  case (Cons l ls)
  show ?case
    by (simp add: process_line_bump Cons.IH split: prod.splits option.splits)
qed

lemma process_lines_append:
  "process_lines L F st (xs @ ys) =
     (case process_lines L F st xs of
        (st1, Some e) \<Rightarrow> (st1, Some e)
      | (st1, None) \<Rightarrow> process_lines L F st1 ys)"
  by (induction xs arbitrary: st) (simp_all split: prod.splits option.splits)

lemma decode_failure_step:
  assumes "strip l \<noteq> []" and "L (strip l) = Inl JSONDecodeError"
  shows "process_line L F st l = (bump 1 st, None)"
  using assms by (simp add: process_line_def decode_line_def bump_def)

lemma process_lines_insert_failure:
  assumes "strip l \<noteq> []" and "L (strip l) = Inl JSONDecodeError"
  shows "process_lines L F st (pre @ l # post) =
     (case process_lines L F st pre of
        (st1, Some e) \<Rightarrow> (st1, Some e)
      | (st1, None) \<Rightarrow> (bump 1 (fst (process_lines L F st1 post)), snd (process_lines L F st1 post)))"
  by (simp add: process_lines_append decode_failure_step[of l L, OF assms] process_lines_bump
      split: prod.splits option.splits)

text \<open>
  Claim C9. A non-blank line on which \<^verbatim>\<open>json.loads\<close> raises \<^verbatim>\<open>JSONDecodeError\<close>
  adds one to the error counter and changes nothing else: the loop body returns the
  statistics with \<^verbatim>\<open>errors\<close> incremented and without an exception, and the statistics
  of the whole file are those of the file without that line, except that \<^verbatim>\<open>errors\<close> is
  one larger when the loop reaches the line (when no earlier line ended the loop with
  an exception).
\<close>

theorem decode_failure_frame:
  assumes "strip l \<noteq> []" and "L (strip l) = Inl JSONDecodeError"
  shows "process_line L F st l = (st\<lparr>errors := errors st + 1\<rparr>, None) \<and>
         analyze_session L F (f\<lparr>f_lines := pre @ l # post\<rparr>) =
           (analyze_session L F (f\<lparr>f_lines := pre @ post\<rparr>))
             \<lparr>errors := errors (analyze_session L F (f\<lparr>f_lines := pre @ post\<rparr>)) +
                (if snd (process_lines L F (initial_stats f) pre) = None then 1 else 0)\<rparr>"
proof
  show "process_line L F st l = (st\<lparr>errors := errors st + 1\<rparr>, None)"
    using decode_failure_step[of l L, OF assms] by (simp add: bump_def)
next
  have init: "initial_stats (f\<lparr>f_lines := xs\<rparr>) = initial_stats f" for xs
    by (simp add: initial_stats_def)
  obtain st1 x1 where pre: "process_lines L F (initial_stats f) pre = (st1, x1)"
    by (cases "process_lines L F (initial_stats f) pre")
  obtain st2 x2 where post: "process_lines L F st1 post = (st2, x2)"
    by (cases "process_lines L F st1 post")
  show "analyze_session L F (f\<lparr>f_lines := pre @ l # post\<rparr>) =
           (analyze_session L F (f\<lparr>f_lines := pre @ post\<rparr>))
             \<lparr>errors := errors (analyze_session L F (f\<lparr>f_lines := pre @ post\<rparr>)) +
                (if snd (process_lines L F (initial_stats f) pre) = None then 1 else 0)\<rparr>"
  proof -
    have A: "process_lines L F (initial_stats f) (pre @ l # post) =
        (case x1 of Some e \<Rightarrow> (st1, Some e) | None \<Rightarrow> (bump 1 st2, x2))"
      by (simp add: process_lines_insert_failure[of l L, OF assms] pre post split: option.splits)
    have B: "process_lines L F (initial_stats f) (pre @ post) =
        (case x1 of Some e \<Rightarrow> (st1, Some e) | None \<Rightarrow> (st2, x2))"
      by (simp add: process_lines_append pre post split: option.splits)
    show ?thesis
      by (cases x1; cases x2; cases "f_read_error f")
         (simp_all add: analyze_session_def init A B pre bump_def)
  qed
qed

theorem decode_failure_frame_witness:
  "strip line_malformed \<noteq> [] \<and> sample_loads (strip line_malformed) = Inl JSONDecodeError \<and>
   analyze_session sample_loads sample_fromiso (example_file\<lparr>f_lines := [line_session, line_malformed, line_user1]\<rparr>) =
     (analyze_session sample_loads sample_fromiso (example_file\<lparr>f_lines := [line_session, line_user1]\<rparr>))
       \<lparr>errors := errors (analyze_session sample_loads sample_fromiso (example_file\<lparr>f_lines := [line_session, line_user1]\<rparr>)) + 1\<rparr>"
proof -
  have h1: "strip line_malformed \<noteq> []" by (simp add: strip_samples nonempty_samples)
  have h2: "sample_loads (strip line_malformed) = Inl JSONDecodeError"
    by (simp add: strip_samples sample_loads_simps)
  have h3: "snd (process_lines sample_loads sample_fromiso (initial_stats example_file) [line_session]) = None"
    by (simp add: process_session_line)
  show ?thesis
    using h1 h2 h3 decode_failure_frame[where l = line_malformed and L = sample_loads and F = sample_fromiso
        and f = example_file and pre = "[line_session]" and post = "[line_user1]"]
    by simp
qed

subsection \<open>The fields taken from the file never change\<close>

lemma same_file_refl: "same_file st st"
  by (simp add: same_file_def)

lemma same_file_trans: "same_file a b \<Longrightarrow> same_file b c \<Longrightarrow> same_file a c"
  by (simp add: same_file_def)

lemma update_timestamps_same_file: "same_file st (fst (update_timestamps st ts))"
  by (simp add: update_timestamps_def same_file_def Let_def split: option.splits sum.splits)

lemma count_tool_blocks_same_file: "same_file st (fst (count_tool_blocks st bs))"
proof (induction bs arbitrary: st)
  case Nil
  show ?case by (simp add: same_file_refl)
next
  case (Cons b bs)
  show ?case
  proof (cases b)
    case (JObj kvs)
    show ?thesis
    proof (cases "dict_get kvs ''type'' JNull = JStr ''tool_use''")
      case True
      show ?thesis
      proof (cases "key_of (dict_get kvs ''name'' (JStr ''unknown''))")
        case None
        with JObj True show ?thesis by (simp add: same_file_def)
      next
        case (Some k)
        have "same_file st (st\<lparr>tool_calls := tool_calls st + 1, tools_used := add_mset k (tools_used st)\<rparr>)"
          by (simp add: same_file_def)
        from same_file_trans[OF this Cons.IH] JObj True Some show ?thesis by simp
      qed
    next
      case False
      with JObj Cons.IH show ?thesis by simp
    qed
  qed (simp_all add: Cons.IH)
qed

lemma add_model_same_file: "same_file st (fst (add_model st m))"
  by (simp add: add_model_def same_file_def split: option.splits)

lemma on_session_same_file: "same_file st (fst (on_session st e ts))"
  by (simp add: on_session_def same_file_def)

lemma on_message_same_file: "same_file st (fst (on_message st e))"
proof -
  have step: "same_file st st1 \<Longrightarrow> same_file st (fst (count_tool_blocks st1 bs))" for st1 bs
    using same_file_trans count_tool_blocks_same_file by blast
  show ?thesis
    by (auto simp: on_message_def Let_def split: json.splits option.splits intro!: step)
       (simp_all add: same_file_def)
qed

lemma on_model_change_same_file: "same_file st (fst (on_model_change st e))"
proof -
  have "same_file st (st\<lparr>model_changes := model_changes st + 1\<rparr>)"
    by (simp add: same_file_def)
  from same_file_trans[OF this add_model_same_file] show ?thesis
    by (simp add: on_model_change_def)
qed

lemma on_custom_same_file: "same_file st (fst (on_custom st e))"
proof -
  have step: "same_file st st1 \<Longrightarrow> same_file st (fst (add_model st1 m))" for st1 m
    using same_file_trans add_model_same_file by blast
  show ?thesis
    by (auto simp: on_custom_def Let_def split: json.splits option.splits intro!: step)
       (simp_all add: same_file_def)
qed

lemma apply_event_same_file: "same_file st (fst (apply_event st e ty ts))"
proof -
  obtain st1 x where u: "(case ts of None \<Rightarrow> (st, None) | Some t \<Rightarrow> update_timestamps st t) = (st1, x)"
    by (cases "case ts of None \<Rightarrow> (st, None) | Some t \<Rightarrow> update_timestamps st t")
  have s1: "same_file st st1"
  proof (cases ts)
    case None
    with u show ?thesis by (simp add: same_file_def)
  next
    case (Some t)
    with u update_timestamps_same_file[of st t] show ?thesis by simp
  qed
  have "same_file st1 (fst (apply_event st e ty ts))"
    using on_session_same_file[of st1 e ts] on_message_same_file[of st1 e]
      on_model_change_same_file[of st1 e] on_custom_same_file[of st1 e]
    by (cases x) (simp_all add: apply_event_def u same_file_refl, simp add: same_file_def)
  with s1 show ?thesis by (rule same_file_trans)
qed

lemma process_line_same_file: "same_file st (fst (process_line L F st l))"
  using apply_event_same_file
  by (cases "decode_line L F l") (simp_all add: process_line_def same_file_refl, simp add: same_file_def)

lemma process_lines_same_file: "same_file st (fst (process_lines L F st ls))"
proof (induction ls arbitrary: st)
  case Nil
  show ?case by (simp add: same_file_refl)
next
  case (Cons l ls)
  obtain st1 x where p: "process_line L F st l = (st1, x)" by (cases "process_line L F st l")
  have s1: "same_file st st1" using process_line_same_file[of st L F l] p by simp
  show ?case
  proof (cases x)
    case None
    with p same_file_trans[OF s1 Cons.IH[of st1]] show ?thesis by simp
  next
    case (Some e)
    with p s1 show ?thesis by simp
  qed
qed

lemma analyze_session_same_file: "same_file (initial_stats f) (analyze_session L F f)"
proof -
  obtain st x where p: "process_lines L F (initial_stats f) (f_lines f) = (st, x)"
    by (cases "process_lines L F (initial_stats f) (f_lines f)")
  have "same_file (initial_stats f) st"
    using process_lines_same_file[of "initial_stats f" L F "f_lines f"] p by simp
  then show ?thesis
    by (cases x; cases "f_read_error f") (simp_all add: analyze_session_def p same_file_def)
qed

lemma analyze_session_file_fields:
  "mtime (analyze_session L F f) = Some (Aware (st_mtime f))"
  "size_bytes (analyze_session L F f) = st_size f"
  "path (analyze_session L F f) = f_path f"
  using analyze_session_same_file[of f L F] by (simp_all add: same_file_def initial_stats_def)

subsection \<open>The staleness rule is always evaluated\<close>

text \<open>
  Claim C10. In the statistics that \<^verbatim>\<open>analyze_session\<close> returns, \<^verbatim>\<open>mtime\<close> is never
  \<^verbatim>\<open>None\<close>: it is the modification instant of the file, with an offset. So the last
  activity (\<^verbatim>\<open>last_timestamp\<close>, falling back to \<^verbatim>\<open>mtime\<close>) is defined for every
  session, the branch of the staleness rule that skips the rule is never taken, and
  the rule subtracts the last activity from \<open>now\<close> and compares the age with its
  thresholds.
\<close>

theorem last_activity_always_defined:
  "mtime (analyze_session L F f) = Some (Aware (st_mtime f)) \<and>
   last_activity (analyze_session L F f) \<noteq> None \<and>
   (\<exists>la. last_activity (analyze_session L F f) = Some la \<and>
      staleness_rule (analyze_session L F f) now =
        (case dt_sub now la of
           Inl e \<Rightarrow> Inl e
         | Inr age \<Rightarrow>
             Inr (if age > 28 * 86400000000 then [Ancient]
                  else if age > 7 * 86400000000 then [Stale] else [])))"
proof -
  let ?s = "analyze_session L F f"
  have m: "mtime ?s = Some (Aware (st_mtime f))" by (rule analyze_session_file_fields)
  then obtain la where la: "last_activity ?s = Some la"
    by (cases "last_timestamp ?s") (simp_all add: last_activity_def dt_or_def)
  have "staleness_rule ?s now =
        (case dt_sub now la of
           Inl e \<Rightarrow> Inl e
         | Inr age \<Rightarrow>
             Inr (if age > 28 * 86400000000 then [Ancient]
                  else if age > 7 * 86400000000 then [Stale] else []))"
    by (simp add: staleness_rule_def la timedelta_days_def STALE_DAYS_def split: sum.splits)
  with m la show ?thesis by simp
qed

subsection \<open>An empty file\<close>

lemma analyze_empty_file:
  assumes "f_lines f = []" and "f_read_error f = None"
  shows "analyze_session L F f = initial_stats f"
  using assms by (simp add: analyze_session_def)

lemma classify_fresh_stats:
  assumes "st_size f = 0"
  shows "classify_session (initial_stats f) (Aware n) =
     Inr (if n - st_mtime f > 28 * 86400000000 then [Ancient]
          else if n - st_mtime f > 7 * 86400000000 then [Stale]
          else [Healthy])"
proof -
  let ?s = "initial_stats f"
  have r: "size_rule ?s = []" "message_rule ?s = []" "compaction_rule ?s = []" "error_rule ?s = []"
    "zombie_rule ?s (Aware n) = Inr []"
    using assms
    by (simp_all add: size_rule_def message_rule_def compaction_rule_def error_rule_def
        zombie_rule_def dt_or_def initial_stats_def)
  have s: "staleness_rule ?s (Aware n) =
     Inr (if n - st_mtime f > 28 * 86400000000 then [Ancient]
          else if n - st_mtime f > 7 * 86400000000 then [Stale] else [])"
    by (simp add: staleness_rule_def last_activity_def dt_or_def initial_stats_def
        timedelta_days_def STALE_DAYS_def)
  show ?thesis by (simp add: classify_session_def r s)
qed

text \<open>
  Claim C7, as the program has it. Accumulating an empty file (no lines, no read
  error, size 0) yields statistics with every counter 0 and both timestamps
  \<^verbatim>\<open>None\<close>. The staleness rule then falls back to the modification instant of the
  file: at an instant \<open>now\<close> with an offset the record is classified as exactly healthy
  when \<open>now\<close> is at most 7 days after the modification instant, as exactly stale when
  it is more than 7 and at most 28 days after it, and as exactly ancient beyond 28
  days.
\<close>

theorem empty_file_statistics:
  assumes "f_lines f = []" and "f_read_error f = None" and "st_size f = 0"
  shows "messages (analyze_session L F f) = 0 \<and>
         user_messages (analyze_session L F f) = 0 \<and>
         assistant_messages (analyze_session L F f) = 0 \<and>
         tool_calls (analyze_session L F f) = 0 \<and>
         compactions (analyze_session L F f) = 0 \<and>
         model_changes (analyze_session L F f) = 0 \<and>
         errors (analyze_session L F f) = 0 \<and>
         first_timestamp (analyze_session L F f) = None \<and>
         last_timestamp (analyze_session L F f) = None \<and>
         classify_session (analyze_session L F f) (Aware n) =
           Inr (if n - st_mtime f > 28 * 86400000000 then [Ancient]
                else if n - st_mtime f > 7 * 86400000000 then [Stale]
                else [Healthy])"
proof -
  have a: "analyze_session L F f = initial_stats f"
    using assms(1,2) by (rule analyze_empty_file)
  have c: "messages (initial_stats f) = 0 \<and>
         user_messages (initial_stats f) = 0 \<and>
         assistant_messages (initial_stats f) = 0 \<and>
         tool_calls (initial_stats f) = 0 \<and>
         compactions (initial_stats f) = 0 \<and>
         model_changes (initial_stats f) = 0 \<and>
         errors (initial_stats f) = 0 \<and>
         first_timestamp (initial_stats f) = None \<and>
         last_timestamp (initial_stats f) = None"
    by (simp add: initial_stats_def)
  show ?thesis
    unfolding a using c classify_fresh_stats[OF assms(3), of n] by simp
qed

theorem empty_file_statistics_witness:
  "f_lines example_file = [] \<and> f_read_error example_file = None \<and> st_size example_file = 0 \<and>
   errors (analyze_session sample_loads sample_fromiso example_file) = 0 \<and>
   classify_session (analyze_session sample_loads sample_fromiso example_file) (Aware 3600000000) =
     Inr [Healthy]"
proof -
  have h: "f_lines example_file = []" "f_read_error example_file = None" "st_size example_file = 0"
    and m: "st_mtime example_file = 0"
    by (simp_all add: example_file_def)
  from empty_file_statistics[OF h, of sample_loads sample_fromiso 3600000000] h m
  show ?thesis by simp
qed

text \<open>
  The claim as stated, that the empty file is healthy at every \<open>now\<close>, fails eight days
  after the file was last modified.
\<close>

theorem empty_file_stale_counterexample:
  "f_lines example_file = [] \<and> f_read_error example_file = None \<and> st_size example_file = 0 \<and>
   classify_session (analyze_session sample_loads sample_fromiso example_file)
     (Aware (8 * 86400000000)) = Inr [Stale] \<and>
   classify_session (analyze_session sample_loads sample_fromiso example_file)
     (Aware (8 * 86400000000)) \<noteq> Inr [Healthy]"
proof -
  have a: "analyze_session sample_loads sample_fromiso example_file = initial_stats example_file"
    by (simp add: analyze_session_def example_file_def)
  have "classify_session (initial_stats example_file) (Aware (8 * 86400000000)) = Inr [Stale]"
    by (simp add: classify_session_def size_rule_def message_rule_def compaction_rule_def
        error_rule_def zombie_rule_def staleness_rule_def last_activity_def dt_or_def
        initial_stats_def example_file_def timedelta_days_def STALE_DAYS_def)
  with a show ?thesis by (simp add: example_file_def)
qed

subsection \<open>Messages and tool calls\<close>

lemma count_tool_blocks_counts:
  assumes "hashable_tool_names bs"
  shows "count_tool_blocks st bs =
     (st\<lparr>tool_calls := tool_calls st + length (filter is_tool_use bs),
         tools_used := tools_used st + mset (map (the \<circ> tool_name_key) (filter is_tool_use bs))\<rparr>,
      None)"
  using assms
proof (induction bs arbitrary: st)
  case Nil
  show ?case by simp
next
  case (Cons b bs)
  show ?case
  proof (cases "is_tool_use b")
    case False
    then have "count_tool_blocks st (b # bs) = count_tool_blocks st bs"
      by (cases b) (simp_all add: is_tool_use_def)
    moreover have "hashable_tool_names bs"
      using Cons.prems False by (simp add: hashable_tool_names_def)
    ultimately show ?thesis using Cons.IH[of st] False by simp
  next
    case True
    then obtain kvs where b: "b = JObj kvs" and ty: "dict_get kvs ''type'' JNull = JStr ''tool_use''"
      by (cases b) (simp_all add: is_tool_use_def)
    from Cons.prems True obtain k where k: "tool_name_key b = Some k" and rest: "hashable_tool_names bs"
      by (auto simp: hashable_tool_names_def)
    from k b have key: "key_of (dict_get kvs ''name'' (JStr ''unknown'')) = Some k"
      by (simp add: tool_name_key_def)
    show ?thesis
      using Cons.IH[OF rest] True k
      by (simp add: b ty key)
  qed
qed


lemma on_message_assistant:
  assumes "map_of entry ''message'' = Some (JObj msg)"
    and "map_of msg ''role'' = Some (JStr ''assistant'')"
    and "map_of msg ''content'' = Some (JArr blocks)"
    and "hashable_tool_names blocks"
  shows "on_message st entry =
     (st\<lparr>messages := messages st + 1,
         assistant_messages := assistant_messages st + 1,
         tool_calls := tool_calls st + length (filter is_tool_use blocks),
         tools_used := tools_used st + mset (map (the \<circ> tool_name_key) (filter is_tool_use blocks))\<rparr>,
      None)"
  using assms(1-3) by (simp add: on_message_def dict_get_def count_tool_blocks_counts[OF assms(4)])

lemma on_message_tool_result:
  assumes "map_of entry ''message'' = Some (JObj msg)"
    and "map_of msg ''role'' = Some (JStr ''toolResult'')"
    and "key_of (dict_get msg ''toolName'' (JStr ''unknown'')) = Some k"
  shows "on_message st entry =
     (st\<lparr>messages := messages st + 1,
         tool_calls := tool_calls st + 1,
         tools_used := add_mset k (tools_used st)\<rparr>,
      None)"
  using assms by (simp add: on_message_def dict_get_def)

lemma decode_line_event:
  assumes "strip l \<noteq> []" and "L (strip l) = Inr (JObj e)"
    and "parse_timestamp F (dict_get e ''timestamp'' JNull) = Inr ts"
  shows "decode_line L F l = Event e (dict_get e ''type'' (JStr ''unknown'')) ts"
  using assms by (simp add: decode_line_def)

lemma parse_timestamp_absent:
  assumes "map_of e ''timestamp'' = None"
  shows "parse_timestamp F (dict_get e ''timestamp'' JNull) = Inr None"
  using assms by (simp add: parse_timestamp_def dict_get_def)

lemma parse_timestamp_string:
  assumes "map_of e ''timestamp'' = Some (JStr s)" and "s \<noteq> []"
    and "F (str_replace ''Z'' ''+00:00'' s) = Inr t"
  shows "parse_timestamp F (dict_get e ''timestamp'' JNull) = Inr (Some t)"
  using assms by (simp add: parse_timestamp_def dict_get_def)

lemma process_message_line:
  assumes "strip l \<noteq> []" and "L (strip l) = Inr (JObj e)"
    and "map_of e ''type'' = Some (JStr ''message'')"
    and "map_of e ''timestamp'' = Some (JStr s)" and "s \<noteq> []"
    and "F (str_replace ''Z'' ''+00:00'' s) = Inr t"
  shows "process_line L F st l =
     (case update_timestamps st t of
        (st1, Some x) \<Rightarrow> (st1, Some x)
      | (st1, None) \<Rightarrow> on_message st1 e)"
proof -
  have d: "decode_line L F l = Event e (JStr ''message'') (Some t)"
    using decode_line_event[of l L e F "Some t", OF assms(1,2) parse_timestamp_string[of e s F t, OF assms(4-6)]]
      assms(3) by (simp add: dict_get_def)
  show ?thesis by (simp add: process_line_def d apply_event_def split: prod.splits option.splits)
qed

lemma process_session_line_general:
  assumes "strip l \<noteq> []" and "L (strip l) = Inr (JObj e)"
    and "map_of e ''type'' = Some (JStr ''session'')"
    and "map_of e ''timestamp'' = None"
  shows "process_line L F st l = on_session st e None"
proof -
  have d: "decode_line L F l = Event e (JStr ''session'') None"
    using decode_line_event[of l L e F None, OF assms(1,2) parse_timestamp_absent[OF assms(4)]]
      assms(3) by (simp add: dict_get_def)
  show ?thesis by (simp add: process_line_def d apply_event_def)
qed

lemma update_timestamps_first:
  assumes "first_timestamp st = None" and "last_timestamp st = None"
  shows "update_timestamps st t = (st\<lparr>first_timestamp := Some t, last_timestamp := Some t\<rparr>, None)"
  using assms by (simp add: update_timestamps_def)

lemma update_timestamps_later:
  assumes "first_timestamp st = Some (Aware a)" and "last_timestamp st = Some (Aware b)"
    and "a \<le> b" and "b < t"
  shows "update_timestamps st (Aware t) = (st\<lparr>last_timestamp := Some (Aware t)\<rparr>, None)"
  using assms by (simp add: update_timestamps_def)

text \<open>
  Claim C3. A file of five lines, a session start with id \<^verbatim>\<open>abc\<close> and no timestamp,
  two user messages with timestamps \<open>T1 < T2\<close>, an assistant message with one
  \<^verbatim>\<open>tool_use\<close> block named \<^verbatim>\<open>search\<close> and timestamp \<open>T3 > T2\<close>, and a line on which
  \<^verbatim>\<open>json.loads\<close> raises \<^verbatim>\<open>JSONDecodeError\<close>, yields statistics with 3 messages, 2
  user messages, 1 assistant message, 1 tool call, 1 error, first timestamp \<open>T1\<close> and
  last timestamp \<open>T3\<close>. In general the message branch adds, for an assistant message,
  one tool call and one occurrence of its name for every \<^verbatim>\<open>tool_use\<close> block of the
  content, and for a \<^verbatim>\<open>toolResult\<close> message one tool call and one occurrence of its
  \<^verbatim>\<open>toolName\<close> (the names being hashable, as strings are).
\<close>

theorem accumulate_scenario_and_tool_calls:
  fixes T1 T2 T3 :: int
  assumes lines: "f_lines f = [l1, l2, l3, l4, l5]" "f_read_error f = None"
    and nonblank: "strip l1 \<noteq> []" "strip l2 \<noteq> []" "strip l3 \<noteq> []" "strip l4 \<noteq> []" "strip l5 \<noteq> []"
    and session: "L (strip l1) = Inr (JObj e1)" "map_of e1 ''type'' = Some (JStr ''session'')"
      "map_of e1 ''id'' = Some (JStr ''abc'')" "map_of e1 ''timestamp'' = None"
    and user1: "L (strip l2) = Inr (JObj e2)" "map_of e2 ''type'' = Some (JStr ''message'')"
      "map_of e2 ''message'' = Some (JObj m2)" "map_of m2 ''role'' = Some (JStr ''user'')"
      "map_of e2 ''timestamp'' = Some (JStr s2)" "s2 \<noteq> []"
      "F (str_replace ''Z'' ''+00:00'' s2) = Inr (Aware T1)"
    and user2: "L (strip l3) = Inr (JObj e3)" "map_of e3 ''type'' = Some (JStr ''message'')"
      "map_of e3 ''message'' = Some (JObj m3)" "map_of m3 ''role'' = Some (JStr ''user'')"
      "map_of e3 ''timestamp'' = Some (JStr s3)" "s3 \<noteq> []"
      "F (str_replace ''Z'' ''+00:00'' s3) = Inr (Aware T2)"
    and assistant: "L (strip l4) = Inr (JObj e4)" "map_of e4 ''type'' = Some (JStr ''message'')"
      "map_of e4 ''message'' = Some (JObj m4)" "map_of m4 ''role'' = Some (JStr ''assistant'')"
      "map_of m4 ''content'' = Some (JArr [JObj b])"
      "map_of b ''type'' = Some (JStr ''tool_use'')" "map_of b ''name'' = Some (JStr ''search'')"
      "map_of e4 ''timestamp'' = Some (JStr s4)" "s4 \<noteq> []"
      "F (str_replace ''Z'' ''+00:00'' s4) = Inr (Aware T3)"
    and malformed: "L (strip l5) = Inl JSONDecodeError"
    and order: "T1 < T2" "T2 < T3"
  shows "messages (analyze_session L F f) = 3 \<and>
         user_messages (analyze_session L F f) = 2 \<and>
         assistant_messages (analyze_session L F f) = 1 \<and>
         tool_calls (analyze_session L F f) = 1 \<and>
         errors (analyze_session L F f) = 1 \<and>
         first_timestamp (analyze_session L F f) = Some (Aware T1) \<and>
         last_timestamp (analyze_session L F f) = Some (Aware T3) \<and>
         tools_used (analyze_session L F f) = {#KStr ''search''#} \<and>
         session_id (analyze_session L F f) = JStr ''abc'' \<and>
         (\<forall>st entry msg blocks.
            map_of entry ''message'' = Some (JObj msg) \<and>
            map_of msg ''role'' = Some (JStr ''assistant'') \<and>
            map_of msg ''content'' = Some (JArr blocks) \<and>
            hashable_tool_names blocks \<longrightarrow>
            on_message st entry =
              (st\<lparr>messages := messages st + 1,
                  assistant_messages := assistant_messages st + 1,
                  tool_calls := tool_calls st + length (filter is_tool_use blocks),
                  tools_used := tools_used st +
                    mset (map (the \<circ> tool_name_key) (filter is_tool_use blocks))\<rparr>,
               None)) \<and>
         (\<forall>st entry msg k.
            map_of entry ''message'' = Some (JObj msg) \<and>
            map_of msg ''role'' = Some (JStr ''toolResult'') \<and>
            key_of (dict_get msg ''toolName'' (JStr ''unknown'')) = Some k \<longrightarrow>
            on_message st entry =
              (st\<lparr>messages := messages st + 1,
                  tool_calls := tool_calls st + 1,
                  tools_used := add_mset k (tools_used st)\<rparr>,
               None))"
proof -
  define st0 where "st0 = initial_stats f"
  define st1 where "st1 = fst (on_session st0 e1 None)"
  define st2 where "st2 = st1\<lparr>first_timestamp := Some (Aware T1), last_timestamp := Some (Aware T1),
      messages := 1, user_messages := 1\<rparr>"
  define st3 where "st3 = st2\<lparr>last_timestamp := Some (Aware T2), messages := 2, user_messages := 2\<rparr>"
  define st4 where "st4 = st3\<lparr>last_timestamp := Some (Aware T3), messages := 3,
      assistant_messages := 1, tool_calls := 1, tools_used := {#KStr ''search''#}\<rparr>"
  define st5 where "st5 = st4\<lparr>errors := 1\<rparr>"
  have p1: "process_line L F st0 l1 = (st1, None)"
    using process_session_line_general[of l1 L e1 F st0, OF nonblank(1) session(1,2,4)]
    by (simp add: st1_def on_session_def)
  have f1: "first_timestamp st1 = None" "last_timestamp st1 = None" "messages st1 = 0"
    "user_messages st1 = 0" "assistant_messages st1 = 0" "tool_calls st1 = 0"
    "tools_used st1 = {#}" "errors st1 = 0" "session_id st1 = JStr ''abc''"
    using session(3) by (simp_all add: st1_def st0_def on_session_def initial_stats_def dict_get_def)
  have p2: "process_line L F st1 l2 = (st2, None)"
    using process_message_line[of l2 L e2 s2 F "Aware T1" st1, OF nonblank(2) user1(1,2,5,6,7)]
      user1(3,4) f1
    by (simp add: update_timestamps_first on_message_def dict_get_def st2_def)
  have p3: "process_line L F st2 l3 = (st3, None)"
    using process_message_line[of l3 L e3 s3 F "Aware T2" st2, OF nonblank(3) user2(1,2,5,6,7)]
      user2(3,4) order(1)
    by (simp add: update_timestamps_def on_message_def dict_get_def st2_def st3_def)
  have h: "hashable_tool_names [JObj b]"
    using assistant(6,7) by (simp add: hashable_tool_names_def is_tool_use_def tool_name_key_def dict_get_def)
  have tu: "is_tool_use (JObj b)" "tool_name_key (JObj b) = Some (KStr ''search'')"
    using assistant(6,7) by (simp_all add: is_tool_use_def tool_name_key_def dict_get_def)
  have u4: "update_timestamps st3 (Aware T3) = (st3\<lparr>last_timestamp := Some (Aware T3)\<rparr>, None)"
    using order by (simp add: update_timestamps_def st3_def st2_def)
  have "process_line L F st3 l4 = on_message (st3\<lparr>last_timestamp := Some (Aware T3)\<rparr>) e4"
    using process_message_line[of l4 L e4 s4 F "Aware T3" st3, OF nonblank(4) assistant(1,2,8,9,10)]
    by (simp add: u4)
  also have "\<dots> = (st4, None)"
    using f1
    by (simp add: on_message_assistant[OF assistant(3,4,5) h] tu st4_def st3_def st2_def)
  finally have p4: "process_line L F st3 l4 = (st4, None)" .
  have p5: "process_line L F st4 l5 = (st5, None)"
    using nonblank(5) malformed f1
    by (simp add: process_line_def decode_line_def st5_def st4_def st3_def st2_def)
  have "process_lines L F st0 [l1, l2, l3, l4, l5] = (st5, None)"
    by (simp add: p1 p2 p3 p4 p5)
  then have a: "analyze_session L F f = st5"
    using lines by (simp add: analyze_session_def st0_def)
  have scenario: "messages st5 = 3 \<and> user_messages st5 = 2 \<and> assistant_messages st5 = 1 \<and>
      tool_calls st5 = 1 \<and> errors st5 = 1 \<and> first_timestamp st5 = Some (Aware T1) \<and>
      last_timestamp st5 = Some (Aware T3) \<and> tools_used st5 = {#KStr ''search''#} \<and>
      session_id st5 = JStr ''abc''"
    using f1 by (simp add: st5_def st4_def st3_def st2_def)
  show ?thesis
    unfolding a using scenario on_message_assistant on_message_tool_result by blast
qed

theorem accumulate_scenario_and_tool_calls_witness:
  "messages (analyze_session sample_loads sample_fromiso sample_file) = 3 \<and>
   user_messages (analyze_session sample_loads sample_fromiso sample_file) = 2 \<and>
   assistant_messages (analyze_session sample_loads sample_fromiso sample_file) = 1 \<and>
   tool_calls (analyze_session sample_loads sample_fromiso sample_file) = 1 \<and>
   errors (analyze_session sample_loads sample_fromiso sample_file) = 1 \<and>
   first_timestamp (analyze_session sample_loads sample_fromiso sample_file) =
     Some (Aware 1767225601000000) \<and>
   last_timestamp (analyze_session sample_loads sample_fromiso sample_file) =
     Some (Aware 1767225603000000) \<and>
   tool_calls (fst (on_message (initial_stats example_file) tool_result_entry)) = 1 \<and>
   tools_used (fst (on_message (initial_stats example_file) tool_result_entry)) = {#KStr ''read''#}"
proof -
  let ?e1 = "[(''type'', JStr ''session''), (''id'', JStr ''abc'')]"
  let ?m2 = "[(''role'', JStr ''user'')]"
  let ?e2 = "[(''type'', JStr ''message''), (''timestamp'', JStr ''2026-01-01T00:00:01Z''),
              (''message'', JObj ?m2)]"
  let ?e3 = "[(''type'', JStr ''message''), (''timestamp'', JStr ''2026-01-01T00:00:02Z''),
              (''message'', JObj ?m2)]"
  let ?b = "[(''type'', JStr ''tool_use''), (''name'', JStr ''search'')]"
  let ?m4 = "[(''role'', JStr ''assistant''), (''content'', JArr [JObj ?b])]"
  let ?e4 = "[(''type'', JStr ''message''), (''timestamp'', JStr ''2026-01-01T00:00:03Z''),
              (''message'', JObj ?m4)]"
  have lines: "f_lines sample_file = [line_session, line_user1, line_user2, line_assistant, line_malformed]"
    "f_read_error sample_file = None"
    by (simp_all add: sample_file_def example_file_def)
  have nonblank: "strip line_session \<noteq> []" "strip line_user1 \<noteq> []" "strip line_user2 \<noteq> []"
    "strip line_assistant \<noteq> []" "strip line_malformed \<noteq> []"
    by (simp_all add: strip_samples nonempty_samples)
  have session: "sample_loads (strip line_session) = Inr (JObj ?e1)"
    "map_of ?e1 ''type'' = Some (JStr ''session'')" "map_of ?e1 ''id'' = Some (JStr ''abc'')"
    "map_of ?e1 ''timestamp'' = None"
    by (simp_all add: strip_samples sample_loads_simps)
  have user1: "sample_loads (strip line_user1) = Inr (JObj ?e2)"
    "map_of ?e2 ''type'' = Some (JStr ''message'')" "map_of ?e2 ''message'' = Some (JObj ?m2)"
    "map_of ?m2 ''role'' = Some (JStr ''user'')"
    "map_of ?e2 ''timestamp'' = Some (JStr ''2026-01-01T00:00:01Z'')"
    "''2026-01-01T00:00:01Z'' \<noteq> []"
    "sample_fromiso (str_replace ''Z'' ''+00:00'' ''2026-01-01T00:00:01Z'') = Inr (Aware 1767225601000000)"
    by (simp_all add: strip_samples sample_loads_simps sample_fromiso_def)
  have user2: "sample_loads (strip line_user2) = Inr (JObj ?e3)"
    "map_of ?e3 ''type'' = Some (JStr ''message'')" "map_of ?e3 ''message'' = Some (JObj ?m2)"
    "map_of ?m2 ''role'' = Some (JStr ''user'')"
    "map_of ?e3 ''timestamp'' = Some (JStr ''2026-01-01T00:00:02Z'')"
    "''2026-01-01T00:00:02Z'' \<noteq> []"
    "sample_fromiso (str_replace ''Z'' ''+00:00'' ''2026-01-01T00:00:02Z'') = Inr (Aware 1767225602000000)"
    by (simp_all add: strip_samples sample_loads_simps sample_fromiso_def)
  have assistant: "sample_loads (strip line_assistant) = Inr (JObj ?e4)"
    "map_of ?e4 ''type'' = Some (JStr ''message'')" "map_of ?e4 ''message'' = Some (JObj ?m4)"
    "map_of ?m4 ''role'' = Some (JStr ''assistant'')"
    "map_of ?m4 ''content'' = Some (JArr [JObj ?b])"
    "map_of ?b ''type'' = Some (JStr ''tool_use'')" "map_of ?b ''name'' = Some (JStr ''search'')"
    "map_of ?e4 ''timestamp'' = Some (JStr ''2026-01-01T00:00:03Z'')"
    "''2026-01-01T00:00:03Z'' \<noteq> []"
    "sample_fromiso (str_replace ''Z'' ''+00:00'' ''2026-01-01T00:00:03Z'') = Inr (Aware 1767225603000000)"
    by (simp_all add: strip_samples sample_loads_simps sample_fromiso_def)
  have malformed: "sample_loads (strip line_malformed) = Inl JSONDecodeError"
    by (simp add: strip_samples sample_loads_simps)
  have order: "(1767225601000000::int) < 1767225602000000" "(1767225602000000::int) < 1767225603000000"
    by simp_all
  note T = accumulate_scenario_and_tool_calls[OF lines nonblank session user1 user2 assistant
      malformed order]
  from T have S: "messages (analyze_session sample_loads sample_fromiso sample_file) = 3 \<and>
         user_messages (analyze_session sample_loads sample_fromiso sample_file) = 2 \<and>
         assistant_messages (analyze_session sample_loads sample_fromiso sample_file) = 1 \<and>
         tool_calls (analyze_session sample_loads sample_fromiso sample_file) = 1 \<and>
         errors (analyze_session sample_loads sample_fromiso sample_file) = 1 \<and>
         first_timestamp (analyze_session sample_loads sample_fromiso sample_file) = Some (Aware 1767225601000000) \<and>
         last_timestamp (analyze_session sample_loads sample_fromiso sample_file) = Some (Aware 1767225603000000)"
    by blast
  from T have G: "\<forall>st entry msg k.
            map_of entry ''message'' = Some (JObj msg) \<and>
            map_of msg ''role'' = Some (JStr ''toolResult'') \<and>
            key_of (dict_get msg ''toolName'' (JStr ''unknown'')) = Some k \<longrightarrow>
            on_message st entry =
              (st\<lparr>messages := messages st + 1,
                  tool_calls := tool_calls st + 1,
                  tools_used := add_mset k (tools_used st)\<rparr>,
               None)"
    by blast
  have tr: "map_of tool_result_entry ''message'' = Some (JObj [(''role'', JStr ''toolResult''), (''toolName'', JStr ''read'')])"
    "map_of [(''role'', JStr ''toolResult''), (''toolName'', JStr ''read'')] ''role'' = Some (JStr ''toolResult'')"
    "key_of (dict_get [(''role'', JStr ''toolResult''), (''toolName'', JStr ''read'')] ''toolName'' (JStr ''unknown'')) = Some (KStr ''read'')"
    by (simp_all add: tool_result_entry_def dict_get_def)
  from G tr have "on_message (initial_stats example_file) tool_result_entry =
      ((initial_stats example_file)\<lparr>messages := messages (initial_stats example_file) + 1,
          tool_calls := tool_calls (initial_stats example_file) + 1,
          tools_used := add_mset (KStr ''read'') (tools_used (initial_stats example_file))\<rparr>, None)"
    by blast
  then have "tool_calls (fst (on_message (initial_stats example_file) tool_result_entry)) = 1 \<and>
   tools_used (fst (on_message (initial_stats example_file) tool_result_entry)) = {#KStr ''read''#}"
    by (simp add: initial_stats_def)
  with S show ?thesis by simp
qed

subsection \<open>Decoding a line\<close>

text \<open>
  What lines 106 to 122 do with a line: a line that is blank after stripping is
  skipped; a line on which \<^verbatim>\<open>json.loads\<close> raises \<^verbatim>\<open>JSONDecodeError\<close> is a failure,
  which the caller counts; a timestamp that is not a string, or a string that
  \<^verbatim>\<open>datetime.fromisoformat\<close> rejects, is read as \<^verbatim>\<open>None\<close>; but a line that
  \<^verbatim>\<open>json.loads\<close> accepts and that is not an object makes \<^verbatim>\<open>entry.get\<close> raise
  \<^verbatim>\<open>AttributeError\<close>.
\<close>

lemma decode_line_blank:
  assumes "strip l = []"
  shows "decode_line L F l = Skipped"
  using assms by (simp add: decode_line_def)

lemma decode_line_not_json:
  assumes "strip l \<noteq> []" and "L (strip l) = Inl JSONDecodeError"
  shows "decode_line L F l = Failure"
  using assms by (simp add: decode_line_def)

lemma parse_timestamp_rejected:
  assumes "F (str_replace ''Z'' ''+00:00'' s) = Inl ValueError"
  shows "parse_timestamp F (JStr s) = Inr None"
  using assms by (simp add: parse_timestamp_def)

lemma parse_timestamp_not_a_string:
  assumes "\<forall>s. v \<noteq> JStr s"
  shows "parse_timestamp F v = Inr None"
  using assms by (cases v) (simp_all add: parse_timestamp_def)

lemma decode_line_not_an_object:
  assumes "strip l \<noteq> []" and "L (strip l) = Inr v" and "\<forall>kvs. v \<noteq> JObj kvs"
  shows "decode_line L F l = Raised AttributeError"
  using assms by (cases v) (simp_all add: decode_line_def)

text \<open>
  Claim C6 says that decoding yields an event or a failure for every line and never
  raises. On a file whose first line is \<^verbatim>\<open>42\<close> the program does raise: \<^verbatim>\<open>json.loads\<close>
  returns the number, \<^verbatim>\<open>entry.get\<close> raises \<^verbatim>\<open>AttributeError\<close>, only the handler
  around the whole loop catches it, and the user message on the next line is never
  counted (without the first line it is).
\<close>

theorem non_object_line_raises:
  "decode_line sample_loads sample_fromiso line_number = Raised AttributeError \<and>
   messages (analyze_session sample_loads sample_fromiso
      (example_file\<lparr>f_lines := [line_number, line_user1]\<rparr>)) = 0 \<and>
   errors (analyze_session sample_loads sample_fromiso
      (example_file\<lparr>f_lines := [line_number, line_user1]\<rparr>)) = 1 \<and>
   error_detail (analyze_session sample_loads sample_fromiso
      (example_file\<lparr>f_lines := [line_number, line_user1]\<rparr>)) = Some AttributeError \<and>
   messages (analyze_session sample_loads sample_fromiso
      (example_file\<lparr>f_lines := [line_user1]\<rparr>)) = 1"
proof -
  have d: "decode_line sample_loads sample_fromiso line_number = Raised AttributeError"
    by (rule decode_line_not_an_object[where v = "JInt 42"])
       (simp_all add: strip_samples nonempty_samples sample_loads_simps)
  have u: "process_line sample_loads sample_fromiso st line_user1 =
      (case update_timestamps st (Aware 1767225601000000) of
        (st1, Some x) \<Rightarrow> (st1, Some x)
      | (st1, None) \<Rightarrow> on_message st1 [(''type'', JStr ''message''),
                            (''timestamp'', JStr ''2026-01-01T00:00:01Z''),
                            (''message'', JObj [(''role'', JStr ''user'')])])" for st
    by (rule process_message_line[where s = "''2026-01-01T00:00:01Z''"])
       (simp_all add: strip_samples nonempty_samples sample_loads_simps sample_fromiso_def)
  have a: "analyze_session sample_loads sample_fromiso (example_file\<lparr>f_lines := [line_number, line_user1]\<rparr>) =
      (initial_stats example_file)\<lparr>errors := 1, error_detail := Some AttributeError\<rparr>"
    by (simp add: analyze_session_def process_line_def d initial_stats_def)
  have b: "messages (analyze_session sample_loads sample_fromiso (example_file\<lparr>f_lines := [line_user1]\<rparr>)) = 1"
    by (simp add: analyze_session_def u update_timestamps_def on_message_def dict_get_def
        initial_stats_def example_file_def)
  show ?thesis using d b by (simp add: a initial_stats_def)
qed

subsection \<open>The size percentiles\<close>

lemma sorted_distinct_card_less:
  fixes xs :: "nat list"
  assumes "sorted xs" and "distinct xs" and "i < length xs"
  shows "card {x \<in> set xs. x < xs ! i} = i"
proof -
  have "{x \<in> set xs. x < xs ! i} = set (take i xs)"
  proof (intro set_eqI iffI)
    fix x assume "x \<in> {x \<in> set xs. x < xs ! i}"
    then obtain j where j: "j < length xs" "x = xs ! j" and lt: "x < xs ! i"
      by (auto simp: in_set_conv_nth)
    have "j < i"
    proof (rule ccontr)
      assume "\<not> j < i"
      then have "xs ! i \<le> xs ! j" using assms(1) j(1) by (simp add: sorted_nth_mono)
      with lt j(2) show False by simp
    qed
    then show "x \<in> set (take i xs)"
      using j assms(3) by (auto simp: in_set_conv_nth intro!: exI[of _ j])
  next
    fix x assume "x \<in> set (take i xs)"
    then obtain j where j: "j < i" "x = xs ! j"
      using assms(3) by (auto simp: in_set_conv_nth)
    have "xs ! j \<le> xs ! i" using assms(1,3) j(1) by (simp add: sorted_nth_mono)
    moreover have "xs ! j \<noteq> xs ! i"
      using assms(2,3) j(1) by (simp add: nth_eq_iff_index_eq)
    ultimately show "x \<in> {x \<in> set xs. x < xs ! i}"
      using j assms(3) by simp
  qed
  moreover have "card (set (take i xs)) = i"
    using assms(2,3) by (simp add: distinct_card)
  ultimately show ?thesis by simp
qed

lemma sorted_last_index_Max:
  fixes xs :: "nat list"
  assumes "sorted xs" and "xs \<noteq> []"
  shows "xs ! (length xs - 1) = Max (set xs)"
proof (rule sym, rule Max_eqI)
  show "finite (set xs)" by simp
  show "xs ! (length xs - 1) \<in> set xs" using assms(2) by simp
  fix y assume "y \<in> set xs"
  then obtain j where "j < length xs" "y = xs ! j" by (auto simp: in_set_conv_nth)
  then show "y \<le> xs ! (length xs - 1)" using assms(1) by (simp add: sorted_nth_mono)
qed

lemma size_percentiles_value:
  assumes "sizes \<noteq> []"
  shows "size_percentiles sizes =
     Inr (Some (sort sizes ! (length sizes div 2),
                sort sizes ! (length sizes * 9 div 10),
                sort sizes ! (length sizes * 99 div 100)))"
proof -
  have n: "0 < length sizes" using assms by simp
  then have "length sizes div 2 < length sizes" "length sizes * 9 div 10 < length sizes"
    "length sizes * 99 div 100 < length sizes"
    by arith+
  then show ?thesis using assms by (simp add: size_percentiles_def py_index_def Let_def)
qed

end
